theory Spec2Isabelle
  imports Main "HOL-Library.DAList" "HOL-Library.Multiset"
begin

section \<open>Inventory storage (pkg/inventory/storage.go)\<close>

text \<open>
  The store keeps one ConfigMap per inventory. It is written against three collaborators
  that are not part of the package: the cluster client (Get, Patch, Delete), the JSON
  codec (Marshal, Unmarshal) and the clock. Each of them is a parameter of the model, so
  a statement below holds for any client, any codec and any clock reading, unless it
  names the in-memory cluster.
\<close>

subsection \<open>Data model\<close>

text \<open>
  Go's \<^verbatim>\<open>map[string]string\<close> is a distinct association list: keys are unique, and the
  order of the list is the order in which a \<^verbatim>\<open>range\<close> loop happens to visit the map.
  A nil map and an empty map read alike.
\<close>

type_synonym StringMap = "(string, string) alist"

record TypeMeta =
  APIVersion :: string
  Kind :: string

text \<open>
  \<^verbatim>\<open>ObjectMeta.ManagedFields\<close> is the server's record of field ownership: which field manager
  owns which label, annotation or data key of the object. The store never sets it.
\<close>

datatype Field = LabelField string | AnnotationField string | DataField string

record ObjectMeta =
  Name :: string
  Namespace :: string
  Labels :: StringMap
  Annotations :: StringMap
  ManagedFields :: "(Field, string) alist"

record ConfigMap =
  TypeMeta :: TypeMeta
  ObjectMeta :: ObjectMeta
  Data :: StringMap

text \<open>\<^verbatim>\<open>client.ObjectKey\<close> is \<^verbatim>\<open>types.NamespacedName\<close>; it prints as namespace/name.\<close>

datatype ObjectKey = ObjectKey (KeyNamespace: string) (KeyName: string)

definition ObjectKeyFromObject :: "ConfigMap \<Rightarrow> ObjectKey" where
  "ObjectKeyFromObject cm =
     ObjectKey (ObjectMeta.Namespace (ObjectMeta cm)) (ObjectMeta.Name (ObjectMeta cm))"

definition KeyString :: "ObjectKey \<Rightarrow> string" where
  "KeyString k = KeyNamespace k @ ''/'' @ KeyName k"

text \<open>
  Modelled from the spec: the types Entry and Inventory are declared in a file of the
  package that is not among the sources. The spec (section 3) gives an Entry an id and a
  version; the fields of Inventory are the ones storage.go reads and writes.
\<close>

record Entry =
  ID :: string
  Version :: string

record Inventory =
  Name :: string
  Namespace :: string
  Source :: string
  Revision :: string
  Entries :: "Entry list"

text \<open>\<^verbatim>\<open>ssa.Owner\<close>: the field manager name and the annotation group.\<close>

record Owner =
  Field :: string
  Group :: string

subsection \<open>Errors\<close>

text \<open>
  An error of the cluster client is either an API status error, which carries a reason, or
  anything else (transport failure, cancelled context). \<^verbatim>\<open>apierrors.IsNotFound\<close> reads the
  reason.
\<close>

datatype StatusReason =
  StatusReasonUnknown | StatusReasonNotFound | StatusReasonForbidden
  | StatusReasonConflict | StatusReasonInvalid | StatusReasonTimeout

datatype client_error =
  StatusError StatusReason string
  | OtherError string

fun ErrorString :: "client_error \<Rightarrow> string" where
  "ErrorString (StatusError r msg) = msg"
| "ErrorString (OtherError msg) = msg"

text \<open>
  The errors the store returns: a client error handed on as it is, an error made by
  \<^verbatim>\<open>fmt.Errorf\<close> (with the error it wraps through \<^verbatim>\<open>%w\<close>, if any), or an error of the
  JSON codec.
\<close>

datatype error =
  ClientError client_error
  | Errorf string "client_error option"
  | JSONError string

fun IsNotFoundClient :: "client_error \<Rightarrow> bool" where
  "IsNotFoundClient (StatusError r msg) = (r = StatusReasonNotFound)"
| "IsNotFoundClient (OtherError msg) = False"

fun IsNotFound :: "error \<Rightarrow> bool" where
  "IsNotFound (ClientError e) = IsNotFoundClient e"
| "IsNotFound (Errorf msg None) = False"
| "IsNotFound (Errorf msg (Some e)) = IsNotFoundClient e"
| "IsNotFound (JSONError msg) = False"

subsection \<open>Collaborators\<close>

datatype PatchType = Apply | Merge

datatype PatchOption = ForceOwnership | FieldOwner string

text \<open>
  The cluster client over a cluster state \<open>'c\<close>. Get fills the object it is given and
  leaves the cluster as it is; Patch and Delete return the cluster they leave behind.
  A cancelled context shows as an error of the call.
\<close>

record 'c Client =
  Get :: "'c \<Rightarrow> ObjectKey \<Rightarrow> ConfigMap \<Rightarrow> client_error + ConfigMap"
  Patch :: "'c \<Rightarrow> ConfigMap \<Rightarrow> PatchType \<Rightarrow> PatchOption list \<Rightarrow> client_error option \<times> 'c"
  Delete :: "'c \<Rightarrow> ConfigMap \<Rightarrow> client_error option \<times> 'c"

text \<open>The JSON codec for a list of entries; a failure carries its message.\<close>

record JSON =
  Marshal :: "Entry list \<Rightarrow> string + string"
  Unmarshal :: "string \<Rightarrow> string + Entry list"

text \<open>\<^verbatim>\<open>InventoryStorage\<close>; \<open>Manager\<close> stands for \<^verbatim>\<open>m.Manager.Client()\<close>.\<close>

record 'c InventoryStorage =
  Manager :: "'c Client"
  Owner :: Owner

subsection \<open>The store\<close>

definition inventoryKindName :: string where
  "inventoryKindName = ''inventory''"

definition newConfigMap :: "'c InventoryStorage \<Rightarrow> string \<Rightarrow> string \<Rightarrow> ConfigMap" where
  "newConfigMap m name namespace =
     \<lparr> TypeMeta = \<lparr> APIVersion = ''v1'', Kind = ''ConfigMap'' \<rparr>,
       ObjectMeta =
         \<lparr> ObjectMeta.Name = name,
           ObjectMeta.Namespace = namespace,
           Labels =
             DAList.update ''app.kubernetes.io/created-by'' (Field (Owner m))
               (DAList.update ''app.kubernetes.io/component'' inventoryKindName
                 (DAList.update ''app.kubernetes.io/name'' name DAList.empty)),
           Annotations = DAList.empty,
           ManagedFields = DAList.empty \<rparr>,
       Data = DAList.empty \<rparr>"

text \<open>
  The loop over the annotations of GetInventory: each pair is matched against the two
  keys of the owner's group, source first.
\<close>

fun rangeAnnotations :: "string \<Rightarrow> (string \<times> string) list \<Rightarrow> Inventory \<Rightarrow> Inventory" where
  "rangeAnnotations g [] i = i"
| "rangeAnnotations g ((k, v) # kvs) i =
     rangeAnnotations g kvs
       (if k = g @ ''/source'' then i\<lparr>Source := v\<rparr>
        else if k = g @ ''/revision'' then i\<lparr>Revision := v\<rparr>
        else i)"

text \<open>
  GetInventory returns its error and the inventory as the call leaves it: the Go function
  writes through the pointer it is given.
\<close>

definition GetInventory ::
  "JSON \<Rightarrow> 'c InventoryStorage \<Rightarrow> 'c \<Rightarrow> Inventory \<Rightarrow> error option \<times> Inventory" where
  "GetInventory js m c i =
     (let cm = newConfigMap m (Name i) (Namespace i);
          cmKey = ObjectKeyFromObject cm
      in case Get (Manager m) c cmKey cm of
           Inl err \<Rightarrow> (Some (ClientError err), i)
         | Inr cm' \<Rightarrow>
            (case DAList.lookup (Data cm') inventoryKindName of
               None \<Rightarrow>
                 (Some (Errorf (''inventory data not found in ConfigMap/'' @ KeyString cmKey) None), i)
             | Some blob \<Rightarrow>
                (case Unmarshal js blob of
                   Inl msg \<Rightarrow> (Some (JSONError msg), i)
                 | Inr entries \<Rightarrow>
                    (None,
                     rangeAnnotations (Group (Owner m))
                       (DAList.impl_of (Annotations (ObjectMeta cm')))
                       (i\<lparr>Entries := entries\<rparr>)))))"

subsection \<open>The clock\<close>

text \<open>
  A clock reading in UTC, as its calendar fields: the value of \<^verbatim>\<open>time.Now().UTC()\<close>.
  \<^verbatim>\<open>Format(time.RFC3339)\<close> prints it by the layout 2006-01-02T15:04:05Z07:00: the year with
  at least four digits, the other fields with at least two, and Z for the zone of a UTC
  time.
\<close>

record Time =
  Year :: nat
  Month :: nat
  Day :: nat
  Hour :: nat
  Minute :: nat
  Second :: nat

definition digit :: "nat \<Rightarrow> char" where
  "digit n = ''0123456789'' ! (n mod 10)"

fun decimal :: "nat \<Rightarrow> string" where
  "decimal n = (if n < 10 then [digit n] else decimal (n div 10) @ [digit n])"

declare decimal.simps [simp del]

definition appendInt :: "nat \<Rightarrow> nat \<Rightarrow> string" where
  "appendInt x width = replicate (width - length (decimal x)) (CHR ''0'') @ decimal x"

definition FormatRFC3339 :: "Time \<Rightarrow> string" where
  "FormatRFC3339 t =
     appendInt (Year t) 4 @ ''-'' @ appendInt (Month t) 2 @ ''-'' @ appendInt (Day t) 2 @ ''T''
     @ appendInt (Hour t) 2 @ '':'' @ appendInt (Minute t) 2 @ '':'' @ appendInt (Second t) 2
     @ ''Z''"

subsection \<open>Apply, Delete and the stale objects\<close>

text \<open>
  ApplyInventory takes the clock reading \<open>now\<close> and returns its error and the cluster the
  Patch leaves behind.
\<close>

definition ApplyInventory ::
  "JSON \<Rightarrow> 'c InventoryStorage \<Rightarrow> 'c \<Rightarrow> Time \<Rightarrow> Inventory \<Rightarrow> error option \<times> 'c" where
  "ApplyInventory js m c now i =
     (case Marshal js (Entries i) of
        Inl msg \<Rightarrow> (Some (JSONError msg), c)
      | Inr data \<Rightarrow>
         (let cm = newConfigMap m (Name i) (Namespace i);
              a0 = DAList.update (Group (Owner m) @ ''/last-applied-time'') (FormatRFC3339 now)
                     DAList.empty;
              a1 = (if Source i \<noteq> [] then DAList.update (Group (Owner m) @ ''/source'') (Source i) a0
                    else a0);
              a2 = (if Revision i \<noteq> []
                    then DAList.update (Group (Owner m) @ ''/revision'') (Revision i) a1
                    else a1);
              cm = cm\<lparr>ObjectMeta := (ObjectMeta cm)\<lparr>Annotations := a2\<rparr>\<rparr>;
              cm = cm\<lparr>Data := DAList.update inventoryKindName data DAList.empty\<rparr>;
              opts = [ForceOwnership, FieldOwner (Field (Owner m))]
          in case Patch (Manager m) c cm Apply opts of
               (None, c') \<Rightarrow> (None, c')
             | (Some err, c') \<Rightarrow> (Some (ClientError err), c')))"

definition DeleteInventory ::
  "'c InventoryStorage \<Rightarrow> 'c \<Rightarrow> Inventory \<Rightarrow> error option \<times> 'c" where
  "DeleteInventory m c i =
     (let cm = newConfigMap m (Name i) (Namespace i);
          cmKey = ObjectKeyFromObject cm
      in case Delete (Manager m) c cm of
           (None, c') \<Rightarrow> (None, c')
         | (Some err, c') \<Rightarrow>
             if \<not> IsNotFound (ClientError err)
             then (Some (Errorf (''failed to delete ConfigMap/'' @ KeyString cmKey @ '', error: ''
                                 @ ErrorString err) (Some err)), c')
             else (None, c'))"

text \<open>
  Modelled from the spec: NewInventory is defined in a file of the package that is not
  among the sources. The spec (section 4.1) says it constructs an empty inventory with
  the given identity, and that it fails with InvalidArgument when the name or the
  namespace is empty. Its one call in storage.go binds a single result and hands it on as
  the inventory, with no error to test, so the model is the inventory constructed; what
  the constructor does with an empty name or namespace is outside the sources, and the
  model says nothing about a failure there.
\<close>

definition NewInventory :: "string \<Rightarrow> string \<Rightarrow> Inventory" where
  "NewInventory name namespace =
     \<lparr> Name = name, Namespace = namespace, Source = [], Revision = [], Entries = [] \<rparr>"

text \<open>
  Diff is a method of Inventory defined outside storage.go; GetInventoryStaleObjects
  takes it as the parameter \<open>diff\<close>, with the result type of the call: the objects, or
  an error.
\<close>

definition GetInventoryStaleObjects ::
  "(Inventory \<Rightarrow> Inventory \<Rightarrow> error + 'o list) \<Rightarrow> JSON \<Rightarrow> 'c InventoryStorage \<Rightarrow> 'c
     \<Rightarrow> Inventory \<Rightarrow> error + 'o list" where
  "GetInventoryStaleObjects diff js m c i =
     (let objects = [];
          existingInventory = NewInventory (Name i) (Namespace i)
      in case GetInventory js m c existingInventory of
           (Some err, existingInventory') \<Rightarrow>
             if IsNotFound err then Inr objects else Inl err
         | (None, existingInventory') \<Rightarrow>
             (case diff existingInventory' i of
                Inl err \<Rightarrow> Inl err
              | Inr objects' \<Rightarrow> Inr objects'))"

subsection \<open>Diff\<close>



subsection \<open>An in-memory cluster\<close>

text \<open>
  Modelled from the spec: the record backend of section 6, a key/value store addressed by
  namespace and name that supports apply with field ownership, get and delete. Get of an
  absent key and Delete of an absent key report NotFound. The apply patch is the upsert
  of section 4.2: the field manager named in the options overwrites the fields it owns
  and leaves the fields of other owners alone.
\<close>

type_synonym Cluster = "ObjectKey \<rightharpoonup> ConfigMap"

definition notFound :: "ObjectKey \<Rightarrow> client_error" where
  "notFound k = StatusError StatusReasonNotFound (''configmaps '' @ KeyName k @ '' not found'')"

text \<open>The field manager of a patch: the last FieldOwner among its options.\<close>

fun fieldManager :: "PatchOption list \<Rightarrow> string option" where
  "fieldManager [] = None"
| "fieldManager (ForceOwnership # opts) = fieldManager opts"
| "fieldManager (FieldOwner f # opts) =
     (case fieldManager opts of None \<Rightarrow> Some f | Some g \<Rightarrow> Some g)"

text \<open>
  One map of the record under an apply by the manager \<open>f\<close>: the entries applied, over
  the stored entries that \<open>f\<close> does not own. A stored entry that \<open>f\<close> owns and no
  longer applies is gone.
\<close>

definition overlay :: "StringMap \<Rightarrow> StringMap \<Rightarrow> StringMap" where
  "overlay applied base = foldr (\<lambda>(k, v). DAList.update k v) (DAList.impl_of applied) base"

definition othersFields ::
  "string \<Rightarrow> (Field, string) alist \<Rightarrow> (string \<Rightarrow> Field) \<Rightarrow> StringMap \<Rightarrow> StringMap" where
  "othersFields f mf path stored =
     DAList.filter (\<lambda>(k, v). DAList.lookup mf (path k) \<noteq> Some f) stored"

text \<open>The fields of the applied object, all owned by \<open>f\<close> after the apply.\<close>

definition appliedFields :: "ConfigMap \<Rightarrow> Field list" where
  "appliedFields cm =
     map (LabelField \<circ> fst) (DAList.impl_of (Labels (ObjectMeta cm)))
     @ map (AnnotationField \<circ> fst) (DAList.impl_of (Annotations (ObjectMeta cm)))
     @ map (DataField \<circ> fst) (DAList.impl_of (Data cm))"

definition serverSideApply :: "string \<Rightarrow> ConfigMap option \<Rightarrow> ConfigMap \<Rightarrow> ConfigMap" where
  "serverSideApply f old cm =
     (let labels = (case old of None \<Rightarrow> DAList.empty | Some r \<Rightarrow> Labels (ObjectMeta r));
          annotations =
            (case old of None \<Rightarrow> DAList.empty | Some r \<Rightarrow> Annotations (ObjectMeta r));
          dat = (case old of None \<Rightarrow> DAList.empty | Some r \<Rightarrow> Data r);
          mf = (case old of None \<Rightarrow> DAList.empty | Some r \<Rightarrow> ManagedFields (ObjectMeta r))
      in cm\<lparr> ObjectMeta :=
               (ObjectMeta cm)
                 \<lparr> Labels := overlay (Labels (ObjectMeta cm)) (othersFields f mf LabelField labels),
                   Annotations :=
                     overlay (Annotations (ObjectMeta cm))
                       (othersFields f mf AnnotationField annotations),
                   ManagedFields :=
                     foldr (\<lambda>p. DAList.update p f) (appliedFields cm)
                       (DAList.filter (\<lambda>(p, g). g \<noteq> f) mf) \<rparr>,
             Data := overlay (Data cm) (othersFields f mf DataField dat) \<rparr>)"

text \<open>
  An apply without ForceOwnership is refused when it sets a field that another manager
  owns to another value.
\<close>

definition conflicts ::
  "string \<Rightarrow> (Field, string) alist \<Rightarrow> (string \<Rightarrow> Field) \<Rightarrow> StringMap \<Rightarrow> StringMap \<Rightarrow> bool" where
  "conflicts f mf path applied stored =
     list_ex (\<lambda>(k, v). case DAList.lookup mf (path k) of
                           None \<Rightarrow> False
                         | Some g \<Rightarrow> g \<noteq> f \<and> DAList.lookup stored k \<noteq> Some v)
       (DAList.impl_of applied)"

definition applyConflicts :: "string \<Rightarrow> ConfigMap option \<Rightarrow> ConfigMap \<Rightarrow> bool" where
  "applyConflicts f old cm =
     (case old of
        None \<Rightarrow> False
      | Some r \<Rightarrow>
          conflicts f (ManagedFields (ObjectMeta r)) LabelField
            (Labels (ObjectMeta cm)) (Labels (ObjectMeta r))
          \<or> conflicts f (ManagedFields (ObjectMeta r)) AnnotationField
              (Annotations (ObjectMeta cm)) (Annotations (ObjectMeta r))
          \<or> conflicts f (ManagedFields (ObjectMeta r)) DataField (Data cm) (Data r))"

text \<open>
  The backend has the apply patch only, and an apply patch names its field manager; the
  other requests are refused as invalid.
\<close>

definition memClient :: "Cluster Client" where
  "memClient =
     \<lparr> Get = (\<lambda>c k obj. case c k of None \<Rightarrow> Inl (notFound k) | Some cm \<Rightarrow> Inr cm),
       Patch = (\<lambda>c cm pt opts.
                 case pt of
                   Merge \<Rightarrow> (Some (StatusError StatusReasonInvalid ''unsupported patch type''), c)
                 | Apply \<Rightarrow>
                    (case fieldManager opts of
                       None \<Rightarrow>
                         (Some (StatusError StatusReasonInvalid
                                  ''fieldManager is required for apply patch''), c)
                     | Some f \<Rightarrow>
                         if ForceOwnership \<notin> set opts
                            \<and> applyConflicts f (c (ObjectKeyFromObject cm)) cm
                         then (Some (StatusError StatusReasonConflict
                                       ''Apply failed with conflicts''), c)
                         else (None,
                               c(ObjectKeyFromObject cm \<mapsto>
                                   serverSideApply f (c (ObjectKeyFromObject cm)) cm)))),
       Delete = (\<lambda>c cm. case c (ObjectKeyFromObject cm) of
                   None \<Rightarrow> (Some (notFound (ObjectKeyFromObject cm)), c)
                 | Some cm' \<Rightarrow> (None, c(ObjectKeyFromObject cm := None))) \<rparr>"


subsection \<open>The shape of an RFC3339 timestamp in UTC\<close>

text \<open>Four digits, two, two, the letter T, three pairs of digits, the letter Z.\<close>

definition isDigit :: "char \<Rightarrow> bool" where
  "isDigit ch = (ch \<in> set ''0123456789'')"

definition isRFC3339UTC :: "string \<Rightarrow> bool" where
  "isRFC3339UTC s =
     (length s = 20
      \<and> list_all (\<lambda>n. isDigit (s ! n)) [0, 1, 2, 3, 5, 6, 8, 9, 11, 12, 14, 15, 17, 18]
      \<and> s ! 4 = CHR ''-'' \<and> s ! 7 = CHR ''-'' \<and> s ! 10 = CHR ''T''
      \<and> s ! 13 = CHR '':'' \<and> s ! 16 = CHR '':'' \<and> s ! 19 = CHR ''Z'')"

text \<open>A clock reading with calendar fields in range and a year of at most four digits.\<close>

definition validTime :: "Time \<Rightarrow> bool" where
  "validTime t =
     (Year t < 10000 \<and> 1 \<le> Month t \<and> Month t \<le> 12 \<and> 1 \<le> Day t \<and> Day t \<le> 31
      \<and> Hour t < 24 \<and> Minute t < 60 \<and> Second t < 60)"

subsection \<open>Concrete inputs\<close>

text \<open>
  A store over the in-memory cluster, a clock reading, and a small codec that writes each
  entry as id=version; and reads back the one blob \<open>exBlob\<close>; every other blob is a
  syntax error.
\<close>

definition exStorage :: "Cluster InventoryStorage" where
  "exStorage =
     \<lparr> Manager = memClient,
       Owner = \<lparr> Field = ''kustomizer'', Group = ''inventory.kustomizer.dev'' \<rparr> \<rparr>"

definition exTime :: Time where
  "exTime = \<lparr> Year = 2021, Month = 3, Day = 4, Hour = 5, Minute = 6, Second = 7 \<rparr>"

definition exEntries :: "Entry list" where
  "exEntries =
     [\<lparr> ID = ''a'', Version = ''v1'' \<rparr>, \<lparr> ID = ''b'', Version = ''v1'' \<rparr>,
      \<lparr> ID = ''c'', Version = ''v1'' \<rparr>]"

definition exBlob :: string where
  "exBlob = ''a=v1;b=v1;c=v1;''"

definition exJSON :: JSON where
  "exJSON =
     \<lparr> Marshal = (\<lambda>es. Inr (concat (map (\<lambda>e. ID e @ ''='' @ Version e @ '';'') es))),
       Unmarshal = (\<lambda>s. if s = exBlob then Inr exEntries
                         else Inl ''invalid character'') \<rparr>"

text \<open>The inventory [a, b, c] of app in ns, and the desired inventory [b, c, d].\<close>

definition exInventory :: Inventory where
  "exInventory =
     \<lparr> Name = ''app'', Namespace = ''ns'', Source = ''repo'', Revision = ''v1'',
       Entries = exEntries \<rparr>"

definition exDesired :: Inventory where
  "exDesired =
     \<lparr> Name = ''app'', Namespace = ''ns'', Source = ''repo'', Revision = ''v2'',
       Entries = [\<lparr> ID = ''b'', Version = ''v1'' \<rparr>, \<lparr> ID = ''c'', Version = ''v1'' \<rparr>,
                  \<lparr> ID = ''d'', Version = ''v1'' \<rparr>] \<rparr>"

text \<open>The same inventory with no source and no revision.\<close>

definition exAnonymous :: Inventory where
  "exAnonymous =
     \<lparr> Name = ''app'', Namespace = ''ns'', Source = [], Revision = [], Entries = exEntries \<rparr>"

text \<open>
  Three records for app in ns: one as ApplyInventory leaves it, one whose blob is not
  serialized entries, one with no blob at all.
\<close>

definition exStored :: ConfigMap where
  "exStored =
     (newConfigMap exStorage ''app'' ''ns'')
       \<lparr> ObjectMeta :=
           (ObjectMeta (newConfigMap exStorage ''app'' ''ns''))
             \<lparr> Annotations :=
                 DAList.update ''inventory.kustomizer.dev/revision'' ''v1''
                   (DAList.update ''inventory.kustomizer.dev/source'' ''repo''
                     (DAList.update ''inventory.kustomizer.dev/last-applied-time''
                        ''2021-03-04T05:06:07Z'' DAList.empty)) \<rparr>,
         Data := DAList.update ''inventory'' exBlob DAList.empty \<rparr>"

definition exBroken :: ConfigMap where
  "exBroken =
     (newConfigMap exStorage ''app'' ''ns'')
       \<lparr> Data := DAList.update ''inventory'' ''[{'' DAList.empty \<rparr>"

definition exBare :: ConfigMap where
  "exBare = newConfigMap exStorage ''app'' ''ns''"

definition exCluster :: "ConfigMap \<Rightarrow> Cluster" where
  "exCluster cm = Map.empty(ObjectKey ''ns'' ''app'' \<mapsto> cm)"


text \<open>A client whose every call is refused.\<close>

definition forbidden :: client_error where
  "forbidden = StatusError StatusReasonForbidden ''configmaps is forbidden''"

definition forbiddenClient :: "unit Client" where
  "forbiddenClient =
     \<lparr> Get = (\<lambda>c k obj. Inl forbidden),
       Patch = (\<lambda>c cm pt opts. (Some forbidden, c)),
       Delete = (\<lambda>c cm. (Some forbidden, c)) \<rparr>"

definition exRefused :: "unit InventoryStorage" where
  "exRefused =
     \<lparr> Manager = forbiddenClient,
       Owner = \<lparr> Field = ''kustomizer'', Group = ''inventory.kustomizer.dev'' \<rparr> \<rparr>"

text \<open>A Diff for the stale objects query that hands back the entries themselves.\<close>

definition exDiff :: "Inventory \<Rightarrow> Inventory \<Rightarrow> error + Entry list" where
  "exDiff old other =
     Inr (filter (\<lambda>e. ID e \<notin> set (map ID (Entries other))) (Entries old))"

section \<open>Properties\<close>

subsection \<open>Auxiliary facts\<close>

lemma newConfigMap_key:
  "ObjectKeyFromObject (newConfigMap m name namespace) = ObjectKey namespace name"
  by (simp add: newConfigMap_def ObjectKeyFromObject_def)

lemma newConfigMap_Manager:
  "newConfigMap (m\<lparr>Manager := cl\<rparr>) name namespace = newConfigMap m name namespace"
  by (simp add: newConfigMap_def)

lemma rangeAnnotations_frame:
  "Name (rangeAnnotations g kvs i) = Name i \<and> Namespace (rangeAnnotations g kvs i) = Namespace i
   \<and> Entries (rangeAnnotations g kvs i) = Entries i"
  by (induction g kvs i rule: rangeAnnotations.induct) auto

text \<open>
  The loop reads a map: whatever the order of the visit, the source it leaves is the value
  under the source key, or the old source when the key is absent.
\<close>

lemma rangeAnnotations_Source:
  "distinct (map fst kvs) \<Longrightarrow>
   Source (rangeAnnotations g kvs i) =
     (case map_of kvs (g @ ''/source'') of None \<Rightarrow> Source i | Some v \<Rightarrow> v)"
proof (induction g kvs i rule: rangeAnnotations.induct)
  case (1 g i)
  show ?case by simp
next
  case (2 g k v kvs i)
  from "2.prems" have d: "distinct (map fst kvs)" and nk: "k \<notin> fst ` set kvs"
    by auto
  from nk have none: "map_of kvs k = None"
    by (simp add: map_of_eq_None_iff)
  show ?case
    using "2.IH" [OF d] none by (auto split: option.splits)
qed

lemma rangeAnnotations_Revision:
  "distinct (map fst kvs) \<Longrightarrow>
   Revision (rangeAnnotations g kvs i) =
     (case map_of kvs (g @ ''/revision'') of None \<Rightarrow> Revision i | Some v \<Rightarrow> v)"
proof (induction g kvs i rule: rangeAnnotations.induct)
  case (1 g i)
  show ?case by simp
next
  case (2 g k v kvs i)
  from "2.prems" have d: "distinct (map fst kvs)" and nk: "k \<notin> fst ` set kvs"
    by auto
  from nk have none: "map_of kvs k = None"
    by (simp add: map_of_eq_None_iff)
  show ?case
    using "2.IH" [OF d] none by (auto split: option.splits)
qed

lemma GetInventory_eq:
  "GetInventory js m c i =
     (case Get (Manager m) c (ObjectKey (Namespace i) (Name i))
             (newConfigMap m (Name i) (Namespace i)) of
        Inl err \<Rightarrow> (Some (ClientError err), i)
      | Inr cm \<Rightarrow>
         (case DAList.lookup (Data cm) ''inventory'' of
            None \<Rightarrow>
              (Some (Errorf (''inventory data not found in ConfigMap/'' @ Namespace i @ ''/''
                             @ Name i) None), i)
          | Some blob \<Rightarrow>
             (case Unmarshal js blob of
                Inl msg \<Rightarrow> (Some (JSONError msg), i)
              | Inr entries \<Rightarrow>
                 (None,
                  rangeAnnotations (Group (Owner m))
                    (DAList.impl_of (Annotations (ObjectMeta cm)))
                    (i\<lparr>Entries := entries\<rparr>)))))"
  by (simp add: GetInventory_def Let_def newConfigMap_key KeyString_def inventoryKindName_def
      split: sum.splits option.splits)


lemma DeleteInventory_eq:
  "DeleteInventory m c i =
     (case Delete (Manager m) c (newConfigMap m (Name i) (Namespace i)) of
        (None, c') \<Rightarrow> (None, c')
      | (Some e, c') \<Rightarrow>
          if IsNotFoundClient e then (None, c')
          else (Some (Errorf (''failed to delete ConfigMap/'' @ Namespace i @ ''/'' @ Name i
                              @ '', error: '' @ ErrorString e) (Some e)), c'))"
  by (simp add: DeleteInventory_def Let_def newConfigMap_key KeyString_def
      split: prod.splits option.splits)

text \<open>
  What ApplyInventory hands to Patch: one object, fixed by the inventory, the owner, the
  clock and the encoded entries, whatever the client.
\<close>

lemma ApplyInventory_object:
  assumes "Marshal js (Entries i) = Inr data"
  shows "\<exists>cm. TypeMeta cm = \<lparr>APIVersion = ''v1'', Kind = ''ConfigMap''\<rparr>
     \<and> ObjectKeyFromObject cm = ObjectKey (Namespace i) (Name i)
     \<and> Labels (ObjectMeta cm) = Labels (ObjectMeta (newConfigMap m (Name i) (Namespace i)))
     \<and> (\<forall>k. DAList.lookup (Data cm) k = (if k = ''inventory'' then Some data else None))
     \<and> (\<forall>k. DAList.lookup (Annotations (ObjectMeta cm)) k =
           (if k = Group (Owner m) @ ''/last-applied-time'' then Some (FormatRFC3339 now)
            else if k = Group (Owner m) @ ''/source'' \<and> Source i \<noteq> [] then Some (Source i)
            else if k = Group (Owner m) @ ''/revision'' \<and> Revision i \<noteq> []
              then Some (Revision i)
            else None))
     \<and> (\<forall>cl c. ApplyInventory js (m\<lparr>Manager := cl\<rparr>) c now i =
           (case Patch cl c cm Apply [ForceOwnership, FieldOwner (Field (Owner m))] of
              (r, c') \<Rightarrow> (map_option ClientError r, c')))"
proof -
  define a0 where
    "a0 = DAList.update (Group (Owner m) @ ''/last-applied-time'') (FormatRFC3339 now)
            (DAList.empty :: StringMap)"
  define a1 where
    "a1 = (if Source i \<noteq> [] then DAList.update (Group (Owner m) @ ''/source'') (Source i) a0
           else a0)"
  define a2 where
    "a2 = (if Revision i \<noteq> []
           then DAList.update (Group (Owner m) @ ''/revision'') (Revision i) a1
           else a1)"
  define cm where
    "cm = (newConfigMap m (Name i) (Namespace i))
      \<lparr>ObjectMeta := (ObjectMeta (newConfigMap m (Name i) (Namespace i)))\<lparr>Annotations := a2\<rparr>,
       Data := DAList.update inventoryKindName data DAList.empty\<rparr>"
  have t: "TypeMeta cm = \<lparr>APIVersion = ''v1'', Kind = ''ConfigMap''\<rparr>"
    by (simp add: cm_def newConfigMap_def)
  have k: "ObjectKeyFromObject cm = ObjectKey (Namespace i) (Name i)"
    by (simp add: cm_def newConfigMap_def ObjectKeyFromObject_def)
  have l: "Labels (ObjectMeta cm) = Labels (ObjectMeta (newConfigMap m (Name i) (Namespace i)))"
    by (simp add: cm_def)
  have d: "\<forall>k. DAList.lookup (Data cm) k = (if k = ''inventory'' then Some data else None)"
    by (simp add: cm_def DAList.lookup_update inventoryKindName_def)
  have a: "\<forall>k. DAList.lookup (Annotations (ObjectMeta cm)) k =
           (if k = Group (Owner m) @ ''/last-applied-time'' then Some (FormatRFC3339 now)
            else if k = Group (Owner m) @ ''/source'' \<and> Source i \<noteq> [] then Some (Source i)
            else if k = Group (Owner m) @ ''/revision'' \<and> Revision i \<noteq> []
              then Some (Revision i)
            else None)"
    by (auto simp: cm_def a2_def a1_def a0_def DAList.lookup_update)
  have p: "\<forall>cl c. ApplyInventory js (m\<lparr>Manager := cl\<rparr>) c now i =
           (case Patch cl c cm Apply [ForceOwnership, FieldOwner (Field (Owner m))] of
              (r, c') \<Rightarrow> (map_option ClientError r, c'))"
    using assms
    by (simp add: ApplyInventory_def Let_def cm_def a2_def a1_def a0_def newConfigMap_Manager
        split: prod.splits option.splits)
  from t k l d a p show ?thesis by blast
qed

text \<open>The digits of the timestamp.\<close>

lemma isDigit_digit: "isDigit (digit n)"
proof -
  have "n mod 10 < length ''0123456789''" by simp
  then have "''0123456789'' ! (n mod 10) \<in> set ''0123456789''" by (rule nth_mem)
  then show ?thesis by (simp only: isDigit_def digit_def)
qed

lemma digit_0: "digit 0 = CHR ''0''"
  by (simp add: digit_def)

lemma decimal_1: "n < 10 \<Longrightarrow> decimal n = [digit n]"
  by (simp add: decimal.simps)

lemma decimal_2: "10 \<le> n \<Longrightarrow> n < 100 \<Longrightarrow> decimal n = [digit (n div 10), digit n]"
  by (subst decimal.simps) (simp add: decimal_1)

lemma decimal_3:
  "100 \<le> n \<Longrightarrow> n < 1000 \<Longrightarrow> decimal n = [digit (n div 100), digit (n div 10), digit n]"
  by (subst decimal.simps) (simp add: decimal_2 div_mult2_eq [symmetric])

lemma decimal_4:
  "1000 \<le> n \<Longrightarrow> n < 10000 \<Longrightarrow>
   decimal n = [digit (n div 1000), digit (n div 100), digit (n div 10), digit n]"
  by (subst decimal.simps) (simp add: decimal_3 div_mult2_eq [symmetric])

lemma replicate_small:
  "replicate 3 x = [x, x, x]" "replicate 2 x = [x, x]" "replicate (Suc 0) x = [x]"
  by (simp_all add: numeral_3_eq_3 numeral_2_eq_2)

lemma appendInt_2: "n < 100 \<Longrightarrow> appendInt n 2 = [digit (n div 10), digit n]"
  by (cases "n < 10") (simp_all add: appendInt_def decimal_1 decimal_2 digit_0)

lemma appendInt_4:
  "n < 10000 \<Longrightarrow>
   appendInt n 4 = [digit (n div 1000), digit (n div 100), digit (n div 10), digit n]"
proof -
  assume n: "n < 10000"
  consider "n < 10" | "10 \<le> n" "n < 100" | "100 \<le> n" "n < 1000" | "1000 \<le> n"
    by linarith
  then show ?thesis
  proof cases
    case 1 then show ?thesis by (simp add: appendInt_def decimal_1 digit_0 replicate_small)
  next
    case 2 then show ?thesis by (simp add: appendInt_def decimal_2 digit_0 replicate_small)
  next
    case 3 then show ?thesis by (simp add: appendInt_def decimal_3 digit_0 replicate_small)
  next
    case 4 with n show ?thesis by (simp add: appendInt_def decimal_4)
  qed
qed

lemma FormatRFC3339_shape: "validTime t \<Longrightarrow> isRFC3339UTC (FormatRFC3339 t)"
  by (simp add: validTime_def FormatRFC3339_def appendInt_2 appendInt_4 isRFC3339UTC_def
      isDigit_digit)

lemma FormatRFC3339_exTime: "FormatRFC3339 exTime = ''2021-03-04T05:06:07Z''"
  by (simp add: FormatRFC3339_def exTime_def appendInt_def decimal.simps digit_def)

text \<open>The in-memory cluster: what an apply leaves, field by field.\<close>

lemma lookup_overlay:
  "DAList.lookup (overlay applied base) k =
     (case DAList.lookup applied k of None \<Rightarrow> DAList.lookup base k | Some v \<Rightarrow> Some v)"
proof -
  have "DAList.lookup (foldr (\<lambda>(k, v). DAList.update k v) kvs base) k =
          (case map_of kvs k of None \<Rightarrow> DAList.lookup base k | Some v \<Rightarrow> Some v)" for kvs
    by (induction kvs) (auto simp: DAList.lookup_update)
  then show ?thesis
    by (simp add: overlay_def DAList.lookup.rep_eq)
qed

lemma map_of_filter_fst:
  "map_of (filter (\<lambda>(k, v). P k) kvs) k = (if P k then map_of kvs k else None)"
  by (induction kvs) auto

lemma lookup_othersFields:
  "DAList.lookup (othersFields f mf path stored) k =
     (if DAList.lookup mf (path k) = Some f then None else DAList.lookup stored k)"
  by (simp add: othersFields_def DAList.lookup.rep_eq DAList.filter.rep_eq map_of_filter_fst)

lemma memClient_Get:
  "Get memClient c k obj = (case c k of None \<Rightarrow> Inl (notFound k) | Some cm \<Rightarrow> Inr cm)"
  by (simp add: memClient_def)

lemma memClient_Patch:
  "Patch memClient c cm Apply [ForceOwnership, FieldOwner f] =
     (None, c(ObjectKeyFromObject cm \<mapsto> serverSideApply f (c (ObjectKeyFromObject cm)) cm))"
  by (simp add: memClient_def)

lemma serverSideApply_Data:
  "DAList.lookup (Data (serverSideApply f old cm)) k =
     (case DAList.lookup (Data cm) k of
        Some v \<Rightarrow> Some v
      | None \<Rightarrow>
         (case old of
            None \<Rightarrow> None
          | Some r \<Rightarrow>
              if DAList.lookup (ManagedFields (ObjectMeta r)) (DataField k) = Some f then None
              else DAList.lookup (Data r) k))"
  by (simp add: serverSideApply_def Let_def lookup_overlay lookup_othersFields
      split: option.splits)

lemma serverSideApply_Annotations:
  "DAList.lookup (Annotations (ObjectMeta (serverSideApply f old cm))) k =
     (case DAList.lookup (Annotations (ObjectMeta cm)) k of
        Some v \<Rightarrow> Some v
      | None \<Rightarrow>
         (case old of
            None \<Rightarrow> None
          | Some r \<Rightarrow>
              if DAList.lookup (ManagedFields (ObjectMeta r)) (AnnotationField k) = Some f
              then None
              else DAList.lookup (Annotations (ObjectMeta r)) k))"
  by (simp add: serverSideApply_def Let_def lookup_overlay lookup_othersFields
      split: option.splits)

lemma serverSideApply_key:
  "ObjectKeyFromObject (serverSideApply f old cm) = ObjectKeyFromObject cm"
  by (simp add: serverSideApply_def Let_def ObjectKeyFromObject_def)

subsection \<open>DeleteInventory\<close>

text \<open>
  C5. DeleteInventory hands the object of the inventory's record to the client's Delete.
  When the client reports no error, or an error that is NotFound, the call returns no
  error; every other error comes back wrapped, under a message that names the record's
  key. So two deletes in a row, the second of which finds the record gone, both return no
  error.
\<close>

theorem DeleteInventory_swallows_NotFound:
  "(\<forall>c'. Delete (Manager m) c (newConfigMap m (Name i) (Namespace i)) = (None, c')
       \<longrightarrow> DeleteInventory m c i = (None, c'))
   \<and> (\<forall>e c'. Delete (Manager m) c (newConfigMap m (Name i) (Namespace i)) = (Some e, c')
         \<and> IsNotFoundClient e
       \<longrightarrow> DeleteInventory m c i = (None, c'))
   \<and> (\<forall>e c'. Delete (Manager m) c (newConfigMap m (Name i) (Namespace i)) = (Some e, c')
         \<and> \<not> IsNotFoundClient e
       \<longrightarrow> DeleteInventory m c i =
             (Some (Errorf (''failed to delete ConfigMap/'' @ Namespace i @ ''/'' @ Name i
                            @ '', error: '' @ ErrorString e) (Some e)), c'))
   \<and> (\<forall>r1 c1 r2 c2.
         Delete (Manager m) c (newConfigMap m (Name i) (Namespace i)) = (r1, c1)
         \<and> Delete (Manager m) c1 (newConfigMap m (Name i) (Namespace i)) = (r2, c2)
         \<and> (\<forall>e. r1 = Some e \<longrightarrow> IsNotFoundClient e)
         \<and> (\<forall>e. r2 = Some e \<longrightarrow> IsNotFoundClient e)
       \<longrightarrow> DeleteInventory m c i = (None, c1) \<and> DeleteInventory m c1 i = (None, c2))"
  by (auto simp: DeleteInventory_eq split: option.splits)

theorem DeleteInventory_swallows_NotFound_witness:
  "DeleteInventory exStorage (exCluster exStored) exInventory = (None, Map.empty)
   \<and> DeleteInventory exStorage Map.empty exInventory = (None, Map.empty)
   \<and> DeleteInventory exRefused () exInventory =
       (Some (Errorf ''failed to delete ConfigMap/ns/app, error: configmaps is forbidden''
                (Some forbidden)), ())"
proof -
  let ?obj = "newConfigMap exStorage (Name exInventory) (Namespace exInventory)"
  have d1: "Delete (Manager exStorage) (exCluster exStored) ?obj = (None, Map.empty)"
    by (simp add: exStorage_def memClient_def newConfigMap_key exInventory_def exCluster_def)
  have d2: "Delete (Manager exStorage) Map.empty ?obj
              = (Some (notFound (ObjectKey ''ns'' ''app'')), Map.empty)"
    by (simp add: exStorage_def memClient_def newConfigMap_key exInventory_def)
  have nf: "IsNotFoundClient (notFound (ObjectKey ''ns'' ''app''))"
    by (simp add: notFound_def)
  have twice: "DeleteInventory exStorage (exCluster exStored) exInventory = (None, Map.empty)
     \<and> DeleteInventory exStorage Map.empty exInventory = (None, Map.empty)"
    using DeleteInventory_swallows_NotFound [of exStorage "exCluster exStored" exInventory]
      d1 d2 nf by auto
  have d3: "Delete (Manager exRefused) () (newConfigMap exRefused (Name exInventory) (Namespace exInventory))
              = (Some forbidden, ())"
    by (simp add: exRefused_def forbiddenClient_def)
  have nnf: "\<not> IsNotFoundClient forbidden"
    by (simp add: forbidden_def)
  have "DeleteInventory exRefused () exInventory =
       (Some (Errorf (''failed to delete ConfigMap/'' @ Namespace exInventory @ ''/''
                @ Name exInventory @ '', error: '' @ ErrorString forbidden) (Some forbidden)), ())"
    using DeleteInventory_swallows_NotFound [of exRefused "()" exInventory] d3 nnf by blast
  then have refused: "DeleteInventory exRefused () exInventory =
       (Some (Errorf ''failed to delete ConfigMap/ns/app, error: configmaps is forbidden''
                (Some forbidden)), ())"
    by (simp add: exInventory_def forbidden_def)
  from twice refused show ?thesis by simp
qed

subsection \<open>GetInventory\<close>

text \<open>
  C4. GetInventory asks the client for the record under the inventory's namespace and
  name. It fails with a NotFound error exactly when the client reports NotFound for that
  record (no record exists); with the error "inventory data not found in ConfigMap/" and
  the key exactly when the client returns the record and its data has no entry under
  "inventory"; with an error of the JSON codec exactly when the record has that entry and
  Unmarshal rejects it. Whenever GetInventory returns an error, the inventory it was given
  is unchanged, entries included.
\<close>

theorem GetInventory_errors:
  "((\<exists>e. fst (GetInventory js m c i) = Some e \<and> IsNotFound e) \<longleftrightarrow>
      (\<exists>ce. Get (Manager m) c (ObjectKey (Namespace i) (Name i))
               (newConfigMap m (Name i) (Namespace i)) = Inl ce \<and> IsNotFoundClient ce))
   \<and> (fst (GetInventory js m c i) =
         Some (Errorf (''inventory data not found in ConfigMap/'' @ Namespace i @ ''/'' @ Name i)
                 None)
       \<longleftrightarrow>
      (\<exists>cm. Get (Manager m) c (ObjectKey (Namespace i) (Name i))
               (newConfigMap m (Name i) (Namespace i)) = Inr cm
         \<and> DAList.lookup (Data cm) ''inventory'' = None))
   \<and> ((\<exists>msg. fst (GetInventory js m c i) = Some (JSONError msg)) \<longleftrightarrow>
      (\<exists>cm blob msg. Get (Manager m) c (ObjectKey (Namespace i) (Name i))
               (newConfigMap m (Name i) (Namespace i)) = Inr cm
         \<and> DAList.lookup (Data cm) ''inventory'' = Some blob \<and> Unmarshal js blob = Inl msg))
   \<and> (\<forall>e. fst (GetInventory js m c i) = Some e \<longrightarrow> snd (GetInventory js m c i) = i)"
  by (auto simp: GetInventory_eq split: sum.splits option.splits)

theorem GetInventory_errors_witness:
  "(\<exists>e. fst (GetInventory exJSON exStorage Map.empty exInventory) = Some e \<and> IsNotFound e)
   \<and> fst (GetInventory exJSON exStorage (exCluster exBare) exInventory) =
       Some (Errorf ''inventory data not found in ConfigMap/ns/app'' None)
   \<and> (\<exists>msg. fst (GetInventory exJSON exStorage (exCluster exBroken) exInventory)
         = Some (JSONError msg))
   \<and> Entries (snd (GetInventory exJSON exStorage (exCluster exBroken) exInventory)) = exEntries"
proof -
  let ?obj = "newConfigMap exStorage (Name exInventory) (Namespace exInventory)"
  let ?key = "ObjectKey (Namespace exInventory) (Name exInventory)"
  have g1: "Get (Manager exStorage) Map.empty ?key ?obj = Inl (notFound (ObjectKey ''ns'' ''app''))"
    by (simp add: exStorage_def memClient_def exInventory_def)
  have nf: "IsNotFoundClient (notFound (ObjectKey ''ns'' ''app''))"
    by (simp add: notFound_def)
  have a: "\<exists>e. fst (GetInventory exJSON exStorage Map.empty exInventory) = Some e \<and> IsNotFound e"
    using GetInventory_errors [of exJSON exStorage Map.empty exInventory] g1 nf by blast
  have g2: "Get (Manager exStorage) (exCluster exBare) ?key ?obj = Inr exBare"
    by (simp add: exStorage_def memClient_def exInventory_def exCluster_def)
  have l2: "DAList.lookup (Data exBare) ''inventory'' = None"
    by (simp add: exBare_def newConfigMap_def)
  have "fst (GetInventory exJSON exStorage (exCluster exBare) exInventory) =
       Some (Errorf (''inventory data not found in ConfigMap/'' @ Namespace exInventory @ ''/''
                     @ Name exInventory) None)"
    using GetInventory_errors [of exJSON exStorage "exCluster exBare" exInventory] g2 l2 by blast
  then have b: "fst (GetInventory exJSON exStorage (exCluster exBare) exInventory) =
       Some (Errorf ''inventory data not found in ConfigMap/ns/app'' None)"
    by (simp add: exInventory_def)
  have g3: "Get (Manager exStorage) (exCluster exBroken) ?key ?obj = Inr exBroken"
    by (simp add: exStorage_def memClient_def exInventory_def exCluster_def)
  have l3: "DAList.lookup (Data exBroken) ''inventory'' = Some ''[{''"
    by (simp add: exBroken_def)
  have u3: "Unmarshal exJSON ''[{'' = Inl ''invalid character''"
    by (simp add: exJSON_def exBlob_def)
  have c: "\<exists>msg. fst (GetInventory exJSON exStorage (exCluster exBroken) exInventory)
         = Some (JSONError msg)"
    using GetInventory_errors [of exJSON exStorage "exCluster exBroken" exInventory] g3 l3 u3
    by blast
  then have "snd (GetInventory exJSON exStorage (exCluster exBroken) exInventory) = exInventory"
    using GetInventory_errors [of exJSON exStorage "exCluster exBroken" exInventory] by blast
  then have d: "Entries (snd (GetInventory exJSON exStorage (exCluster exBroken) exInventory))
      = exEntries"
    by (simp add: exInventory_def)
  from a b c d show ?thesis by blast
qed

text \<open>
  C8. GetInventory never changes the name or the namespace of the inventory it is given.
  After a successful Get, the source is the value of the record's annotation
  group/source when the record has that annotation, and the source from before the call
  otherwise; the revision likewise, from the annotation group/revision.
\<close>

theorem GetInventory_frame:
  "Name (snd (GetInventory js m c i)) = Name i
   \<and> Namespace (snd (GetInventory js m c i)) = Namespace i
   \<and> (\<forall>i'. GetInventory js m c i = (None, i') \<longrightarrow>
        (\<exists>cm. Get (Manager m) c (ObjectKey (Namespace i) (Name i))
                 (newConfigMap m (Name i) (Namespace i)) = Inr cm
          \<and> Source i' =
              (case DAList.lookup (Annotations (ObjectMeta cm)) (Group (Owner m) @ ''/source'') of
                 None \<Rightarrow> Source i | Some v \<Rightarrow> v)
          \<and> Revision i' =
              (case DAList.lookup (Annotations (ObjectMeta cm)) (Group (Owner m) @ ''/revision'') of
                 None \<Rightarrow> Revision i | Some v \<Rightarrow> v)))"
  by (auto simp: GetInventory_eq rangeAnnotations_frame rangeAnnotations_Source
      rangeAnnotations_Revision DAList.lookup.rep_eq split: sum.splits option.splits)

theorem GetInventory_frame_witness:
  "Revision (snd (GetInventory exJSON exStorage (exCluster exStored) exDesired)) = ''v1''
   \<and> Source (snd (GetInventory exJSON exStorage (exCluster exStored) exDesired)) = ''repo''
   \<and> Name (snd (GetInventory exJSON exStorage (exCluster exStored) exDesired)) = ''app''
   \<and> Revision (snd (GetInventory exJSON exStorage
        (exCluster (exBare\<lparr>Data := Data exStored\<rparr>)) exDesired)) = ''v2''"
proof -
  let ?obj = "newConfigMap exStorage (Name exDesired) (Namespace exDesired)"
  let ?key = "ObjectKey (Namespace exDesired) (Name exDesired)"
  let ?g = "Group (Owner exStorage)"
  let ?r1 = "GetInventory exJSON exStorage (exCluster exStored) exDesired"
  let ?plain = "exBare\<lparr>Data := Data exStored\<rparr>"
  let ?r2 = "GetInventory exJSON exStorage (exCluster ?plain) exDesired"
  have g1: "Get (Manager exStorage) (exCluster exStored) ?key ?obj = Inr exStored"
    by (simp add: exStorage_def memClient_def exDesired_def exCluster_def)
  have "fst ?r1 = None"
    by (simp add: GetInventory_eq g1) (simp add: exStored_def exJSON_def)
  then have s1: "?r1 = (None, snd ?r1)"
    by (simp add: prod_eq_iff)
  from GetInventory_frame [of exJSON exStorage "exCluster exStored" exDesired] s1 g1
  have "Source (snd ?r1) =
           (case DAList.lookup (Annotations (ObjectMeta exStored)) (?g @ ''/source'') of
              None \<Rightarrow> Source exDesired | Some v \<Rightarrow> v)
        \<and> Revision (snd ?r1) =
           (case DAList.lookup (Annotations (ObjectMeta exStored)) (?g @ ''/revision'') of
              None \<Rightarrow> Revision exDesired | Some v \<Rightarrow> v)"
    by (metis sum.inject(2))
  then have a: "Source (snd ?r1) = ''repo'' \<and> Revision (snd ?r1) = ''v1''"
    by (simp add: exStored_def exStorage_def)
  have "Name (snd ?r1) = Name exDesired"
    using GetInventory_frame [of exJSON exStorage "exCluster exStored" exDesired] by blast
  then have b: "Name (snd ?r1) = ''app''"
    by (simp add: exDesired_def)
  have g2: "Get (Manager exStorage) (exCluster ?plain) ?key ?obj = Inr ?plain"
    by (simp add: exStorage_def memClient_def exDesired_def exCluster_def)
  have "fst ?r2 = None"
    by (simp add: GetInventory_eq g2) (simp add: exStored_def exJSON_def)
  then have s2: "?r2 = (None, snd ?r2)"
    by (simp add: prod_eq_iff)
  from GetInventory_frame [of exJSON exStorage "exCluster ?plain" exDesired] s2 g2
  have "Revision (snd ?r2) =
           (case DAList.lookup (Annotations (ObjectMeta ?plain)) (?g @ ''/revision'') of
              None \<Rightarrow> Revision exDesired | Some v \<Rightarrow> v)"
    by (metis sum.inject(2))
  then have c: "Revision (snd ?r2) = ''v2''"
    by (simp add: exBare_def newConfigMap_def exDesired_def)
  from a b c show ?thesis by blast
qed

subsection \<open>GetInventoryStaleObjects\<close>

text \<open>
  C1. GetInventoryStaleObjects runs GetInventory on NewInventory of the desired
  inventory's name and namespace, an inventory with that identity and no entries. When
  that Get fails with a NotFound error, the result is the empty list and no error; when
  it fails with any other error, the result is that error; when it succeeds, the result
  is exactly what Diff returns for the inventory read and the desired one, objects or
  error. In terms of the client: when its Get for the record under the desired
  inventory's namespace and name reports NotFound, the result is the empty list, and when
  it reports another error, the result is that error.
\<close>

theorem GetInventoryStaleObjects_cases:
  "(\<forall>e ex. GetInventory js m c (NewInventory (Name i) (Namespace i)) = (Some e, ex)
         \<and> IsNotFound e
       \<longrightarrow> GetInventoryStaleObjects diff js m c i = Inr [])
   \<and> (\<forall>e ex. GetInventory js m c (NewInventory (Name i) (Namespace i)) = (Some e, ex)
         \<and> \<not> IsNotFound e
       \<longrightarrow> GetInventoryStaleObjects diff js m c i = Inl e)
   \<and> (\<forall>ex. GetInventory js m c (NewInventory (Name i) (Namespace i)) = (None, ex)
       \<longrightarrow> GetInventoryStaleObjects diff js m c i = diff ex i)
   \<and> Name (NewInventory (Name i) (Namespace i)) = Name i
   \<and> Namespace (NewInventory (Name i) (Namespace i)) = Namespace i
   \<and> Entries (NewInventory (Name i) (Namespace i)) = []
   \<and> (\<forall>ce. Get (Manager m) c (ObjectKey (Namespace i) (Name i))
               (newConfigMap m (Name i) (Namespace i)) = Inl ce
        \<longrightarrow> GetInventoryStaleObjects diff js m c i
              = (if IsNotFoundClient ce then Inr [] else Inl (ClientError ce)))"
proof -
  have cases: "(\<forall>e ex. GetInventory js m c (NewInventory (Name i) (Namespace i)) = (Some e, ex)
         \<and> IsNotFound e
       \<longrightarrow> GetInventoryStaleObjects diff js m c i = Inr [])
   \<and> (\<forall>e ex. GetInventory js m c (NewInventory (Name i) (Namespace i)) = (Some e, ex)
         \<and> \<not> IsNotFound e
       \<longrightarrow> GetInventoryStaleObjects diff js m c i = Inl e)
   \<and> (\<forall>ex. GetInventory js m c (NewInventory (Name i) (Namespace i)) = (None, ex)
       \<longrightarrow> GetInventoryStaleObjects diff js m c i = diff ex i)"
    by (auto simp: GetInventoryStaleObjects_def Let_def split: sum.splits)
  have fresh: "Name (NewInventory (Name i) (Namespace i)) = Name i
   \<and> Namespace (NewInventory (Name i) (Namespace i)) = Namespace i
   \<and> Entries (NewInventory (Name i) (Namespace i)) = []"
    by (simp add: NewInventory_def)
  have client: "\<forall>ce. Get (Manager m) c (ObjectKey (Namespace i) (Name i))
               (newConfigMap m (Name i) (Namespace i)) = Inl ce
        \<longrightarrow> GetInventoryStaleObjects diff js m c i
              = (if IsNotFoundClient ce then Inr [] else Inl (ClientError ce))"
    by (simp add: GetInventoryStaleObjects_def Let_def GetInventory_eq fresh)
  from cases fresh client show ?thesis
    by simp
qed

theorem GetInventoryStaleObjects_cases_witness:
  "GetInventoryStaleObjects exDiff exJSON exStorage Map.empty exDesired = Inr []
   \<and> GetInventoryStaleObjects exDiff exJSON exStorage (exCluster exStored) exDesired
       = Inr [\<lparr> ID = ''a'', Version = ''v1'' \<rparr>]
   \<and> GetInventoryStaleObjects exDiff exJSON exRefused () exDesired
       = Inl (ClientError forbidden)"
proof -
  let ?fresh = "NewInventory (Name exDesired) (Namespace exDesired)"
  have n: "Name ?fresh = ''app''" "Namespace ?fresh = ''ns''"
    by (simp_all add: NewInventory_def exDesired_def)
  have g1: "GetInventory exJSON exStorage Map.empty ?fresh
              = (Some (ClientError (notFound (ObjectKey ''ns'' ''app''))), ?fresh)"
    by (simp add: GetInventory_eq n) (simp add: exStorage_def memClient_def)
  have nf: "IsNotFound (ClientError (notFound (ObjectKey ''ns'' ''app'')))"
    by (simp add: notFound_def)
  have a: "GetInventoryStaleObjects exDiff exJSON exStorage Map.empty exDesired = Inr []"
    using GetInventoryStaleObjects_cases [of exJSON exStorage Map.empty exDesired exDiff] g1 nf
    by blast
  let ?r = "GetInventory exJSON exStorage (exCluster exStored) ?fresh"
  have get: "Get (Manager exStorage) (exCluster exStored) (ObjectKey ''ns'' ''app'')
               (newConfigMap exStorage ''app'' ''ns'') = Inr exStored"
    by (simp add: exStorage_def memClient_def exCluster_def)
  have r: "fst ?r = None \<and> Entries (snd ?r) = exEntries"
    by (simp add: GetInventory_eq n get) (simp add: exStored_def exJSON_def rangeAnnotations_frame)
  then have g2: "?r = (None, snd ?r)"
    by (simp add: prod_eq_iff)
  have "GetInventoryStaleObjects exDiff exJSON exStorage (exCluster exStored) exDesired
          = exDiff (snd ?r) exDesired"
    using GetInventoryStaleObjects_cases [of exJSON exStorage "exCluster exStored" exDesired exDiff]
      g2 by blast
  then have b: "GetInventoryStaleObjects exDiff exJSON exStorage (exCluster exStored) exDesired
       = Inr [\<lparr> ID = ''a'', Version = ''v1'' \<rparr>]"
    using r by (simp add: exDiff_def exDesired_def exEntries_def)
  have g3: "GetInventory exJSON exRefused () ?fresh = (Some (ClientError forbidden), ?fresh)"
    by (simp add: GetInventory_eq n) (simp add: exRefused_def forbiddenClient_def)
  have nnf: "\<not> IsNotFound (ClientError forbidden)"
    by (simp add: forbidden_def)
  have c: "GetInventoryStaleObjects exDiff exJSON exRefused () exDesired
       = Inl (ClientError forbidden)"
    using GetInventoryStaleObjects_cases [of exJSON exRefused "()" exDesired exDiff] g3 nnf
    by blast
  from a b c show ?thesis by blast
qed

subsection \<open>Apply, then Get\<close>





subsection \<open>ApplyInventory\<close>

text \<open>
  C7, as amended. When the entries cannot be encoded, ApplyInventory returns the codec's
  error and calls no client. Otherwise it is, for every client, the client's Patch (a
  server-side apply that forces ownership, under the owner's field manager) of one object:
  the record under the inventory's namespace and name, whose data has the single key
  "inventory", holding the encoded entries, and whose annotations hold the clock reading
  under group/last-applied-time, the source under group/source when the source is not
  empty, and the revision under group/revision when the revision is not empty. The
  timestamp of a clock reading in range has the shape of an RFC3339 time in UTC.
\<close>

theorem ApplyInventory_record:
  "(\<forall>msg. Marshal js (Entries i) = Inl msg
       \<longrightarrow> ApplyInventory js m c now i = (Some (JSONError msg), c))
   \<and> (\<forall>data. Marshal js (Entries i) = Inr data \<longrightarrow>
        (\<exists>cm. ObjectKeyFromObject cm = ObjectKey (Namespace i) (Name i)
           \<and> (\<forall>k. DAList.lookup (Data cm) k = (if k = ''inventory'' then Some data else None))
           \<and> DAList.lookup (Annotations (ObjectMeta cm)) (Group (Owner m) @ ''/last-applied-time'')
               = Some (FormatRFC3339 now)
           \<and> (Source i \<noteq> [] \<longrightarrow>
                DAList.lookup (Annotations (ObjectMeta cm)) (Group (Owner m) @ ''/source'')
                  = Some (Source i))
           \<and> (Revision i \<noteq> [] \<longrightarrow>
                DAList.lookup (Annotations (ObjectMeta cm)) (Group (Owner m) @ ''/revision'')
                  = Some (Revision i))
           \<and> (\<forall>cl c. ApplyInventory js (m\<lparr>Manager := cl\<rparr>) c now i =
                (case Patch cl c cm Apply [ForceOwnership, FieldOwner (Field (Owner m))] of
                   (r, c') \<Rightarrow> (map_option ClientError r, c')))))
   \<and> (validTime now \<longrightarrow> isRFC3339UTC (FormatRFC3339 now))"
proof -
  have a: "\<forall>msg. Marshal js (Entries i) = Inl msg
       \<longrightarrow> ApplyInventory js m c now i = (Some (JSONError msg), c)"
    by (simp add: ApplyInventory_def)
  have b: "\<forall>data. Marshal js (Entries i) = Inr data \<longrightarrow>
        (\<exists>cm. ObjectKeyFromObject cm = ObjectKey (Namespace i) (Name i)
           \<and> (\<forall>k. DAList.lookup (Data cm) k = (if k = ''inventory'' then Some data else None))
           \<and> DAList.lookup (Annotations (ObjectMeta cm)) (Group (Owner m) @ ''/last-applied-time'')
               = Some (FormatRFC3339 now)
           \<and> (Source i \<noteq> [] \<longrightarrow>
                DAList.lookup (Annotations (ObjectMeta cm)) (Group (Owner m) @ ''/source'')
                  = Some (Source i))
           \<and> (Revision i \<noteq> [] \<longrightarrow>
                DAList.lookup (Annotations (ObjectMeta cm)) (Group (Owner m) @ ''/revision'')
                  = Some (Revision i))
           \<and> (\<forall>cl c. ApplyInventory js (m\<lparr>Manager := cl\<rparr>) c now i =
                (case Patch cl c cm Apply [ForceOwnership, FieldOwner (Field (Owner m))] of
                   (r, c') \<Rightarrow> (map_option ClientError r, c'))))"
  proof (intro allI impI)
    fix data
    assume mar: "Marshal js (Entries i) = Inr data"
    from ApplyInventory_object [OF mar, of m now] obtain cm where
      key: "ObjectKeyFromObject cm = ObjectKey (Namespace i) (Name i)"
      and dat: "\<forall>k. DAList.lookup (Data cm) k = (if k = ''inventory'' then Some data else None)"
      and ann: "\<forall>k. DAList.lookup (Annotations (ObjectMeta cm)) k =
           (if k = Group (Owner m) @ ''/last-applied-time'' then Some (FormatRFC3339 now)
            else if k = Group (Owner m) @ ''/source'' \<and> Source i \<noteq> [] then Some (Source i)
            else if k = Group (Owner m) @ ''/revision'' \<and> Revision i \<noteq> []
              then Some (Revision i)
            else None)"
      and pat: "\<forall>cl c. ApplyInventory js (m\<lparr>Manager := cl\<rparr>) c now i =
           (case Patch cl c cm Apply [ForceOwnership, FieldOwner (Field (Owner m))] of
              (r, c') \<Rightarrow> (map_option ClientError r, c'))"
      by blast
    have t: "DAList.lookup (Annotations (ObjectMeta cm)) (Group (Owner m) @ ''/last-applied-time'')
               = Some (FormatRFC3339 now)"
      using ann by simp
    have s: "Source i \<noteq> [] \<longrightarrow>
                DAList.lookup (Annotations (ObjectMeta cm)) (Group (Owner m) @ ''/source'')
                  = Some (Source i)"
      using ann by simp
    have r: "Revision i \<noteq> [] \<longrightarrow>
                DAList.lookup (Annotations (ObjectMeta cm)) (Group (Owner m) @ ''/revision'')
                  = Some (Revision i)"
      using ann by simp
    from key dat t s r pat
    show "\<exists>cm. ObjectKeyFromObject cm = ObjectKey (Namespace i) (Name i)
           \<and> (\<forall>k. DAList.lookup (Data cm) k = (if k = ''inventory'' then Some data else None))
           \<and> DAList.lookup (Annotations (ObjectMeta cm)) (Group (Owner m) @ ''/last-applied-time'')
               = Some (FormatRFC3339 now)
           \<and> (Source i \<noteq> [] \<longrightarrow>
                DAList.lookup (Annotations (ObjectMeta cm)) (Group (Owner m) @ ''/source'')
                  = Some (Source i))
           \<and> (Revision i \<noteq> [] \<longrightarrow>
                DAList.lookup (Annotations (ObjectMeta cm)) (Group (Owner m) @ ''/revision'')
                  = Some (Revision i))
           \<and> (\<forall>cl c. ApplyInventory js (m\<lparr>Manager := cl\<rparr>) c now i =
                (case Patch cl c cm Apply [ForceOwnership, FieldOwner (Field (Owner m))] of
                   (r, c') \<Rightarrow> (map_option ClientError r, c')))"
      by blast
  qed
  have c: "validTime now \<longrightarrow> isRFC3339UTC (FormatRFC3339 now)"
    by (simp add: FormatRFC3339_shape)
  from a b c show ?thesis by blast
qed

theorem ApplyInventory_record_witness:
  "fst (ApplyInventory exJSON exStorage Map.empty exTime exInventory) = None
   \<and> (\<exists>cm. snd (ApplyInventory exJSON exStorage Map.empty exTime exInventory)
              (ObjectKey ''ns'' ''app'') = Some cm
         \<and> DAList.lookup (Data cm) ''inventory'' = Some exBlob
         \<and> DAList.lookup (Data cm) ''entries'' = None
         \<and> DAList.lookup (Annotations (ObjectMeta cm))
              ''inventory.kustomizer.dev/last-applied-time'' = Some ''2021-03-04T05:06:07Z''
         \<and> DAList.lookup (Annotations (ObjectMeta cm)) ''inventory.kustomizer.dev/source''
              = Some ''repo''
         \<and> DAList.lookup (Annotations (ObjectMeta cm)) ''inventory.kustomizer.dev/revision''
              = Some ''v1'')
   \<and> isRFC3339UTC ''2021-03-04T05:06:07Z''"
proof -
  let ?g = "Group (Owner exStorage)"
  have mar: "Marshal exJSON (Entries exInventory) = Inr exBlob"
    by (simp add: exJSON_def exInventory_def exEntries_def exBlob_def)
  have src: "Source exInventory \<noteq> []" and rev: "Revision exInventory \<noteq> []"
    by (simp_all add: exInventory_def)
  have vt: "validTime exTime"
    by (simp add: validTime_def exTime_def)
  from ApplyInventory_record [of exJSON exInventory exStorage Map.empty exTime] mar src rev vt
  obtain cm where
    key: "ObjectKeyFromObject cm = ObjectKey (Namespace exInventory) (Name exInventory)"
    and dat: "\<forall>k. DAList.lookup (Data cm) k = (if k = ''inventory'' then Some exBlob else None)"
    and t: "DAList.lookup (Annotations (ObjectMeta cm)) (?g @ ''/last-applied-time'')
              = Some (FormatRFC3339 exTime)"
    and s: "DAList.lookup (Annotations (ObjectMeta cm)) (?g @ ''/source'')
              = Some (Source exInventory)"
    and r: "DAList.lookup (Annotations (ObjectMeta cm)) (?g @ ''/revision'')
              = Some (Revision exInventory)"
    and pat: "\<forall>cl c. ApplyInventory exJSON (exStorage\<lparr>Manager := cl\<rparr>) c exTime exInventory =
                (case Patch cl c cm Apply [ForceOwnership, FieldOwner (Field (Owner exStorage))] of
                   (r, c') \<Rightarrow> (map_option ClientError r, c'))"
    and shape: "isRFC3339UTC (FormatRFC3339 exTime)"
    by blast
  have same: "exStorage\<lparr>Manager := memClient\<rparr> = exStorage"
    by (simp add: exStorage_def)
  from pat have "ApplyInventory exJSON (exStorage\<lparr>Manager := memClient\<rparr>) Map.empty exTime exInventory =
      (case Patch memClient Map.empty cm Apply [ForceOwnership, FieldOwner (Field (Owner exStorage))] of
         (r, c') \<Rightarrow> (map_option ClientError r, c'))"
    by blast
  then have "ApplyInventory exJSON exStorage Map.empty exTime exInventory =
      (case Patch memClient Map.empty cm Apply [ForceOwnership, FieldOwner (Field (Owner exStorage))] of
         (r, c') \<Rightarrow> (map_option ClientError r, c'))"
    by (simp only: same)
  then have ap: "ApplyInventory exJSON exStorage Map.empty exTime exInventory
                   = (None, Map.empty(ObjectKey ''ns'' ''app'' \<mapsto>
                        serverSideApply (Field (Owner exStorage)) None cm))"
    by (simp add: memClient_Patch key exInventory_def)
  have g: "?g = ''inventory.kustomizer.dev''"
    by (simp add: exStorage_def)
  from ap dat t s r shape show ?thesis
    by (simp add: g FormatRFC3339_exTime exInventory_def serverSideApply_Data
        serverSideApply_Annotations)
qed

theorem ApplyInventory_no_source_counterexample:
  "fst (ApplyInventory exJSON exStorage Map.empty exTime exAnonymous) = None
   \<and> snd (ApplyInventory exJSON exStorage Map.empty exTime exAnonymous) (ObjectKey ''ns'' ''app'')
       \<noteq> None
   \<and> DAList.lookup
       (Annotations (ObjectMeta (the
          (snd (ApplyInventory exJSON exStorage Map.empty exTime exAnonymous)
             (ObjectKey ''ns'' ''app'')))))
       ''inventory.kustomizer.dev/source'' = None
   \<and> DAList.lookup
       (Annotations (ObjectMeta (the
          (snd (ApplyInventory exJSON exStorage Map.empty exTime exAnonymous)
             (ObjectKey ''ns'' ''app'')))))
       ''inventory.kustomizer.dev/revision'' = None"
  by (simp add: ApplyInventory_def Let_def exJSON_def exStorage_def memClient_def
      exAnonymous_def newConfigMap_def ObjectKeyFromObject_def DAList.lookup_update
      serverSideApply_Annotations)

text \<open>
  C9. Let the entries encode. The object ApplyInventory patches has the annotation
  group/source exactly when the inventory's source is not the empty string, and then with
  the source as its value; it has group/revision exactly when the revision is not empty,
  with the revision as its value; and it always has group/last-applied-time. Neither of
  the first two is ever stored with an empty value. An Apply that succeeds has encoded the
  entries, so it has written the timestamp.
\<close>

theorem ApplyInventory_annotations:
  "(\<forall>data. Marshal js (Entries i) = Inr data \<longrightarrow>
      (\<exists>cm. (\<forall>cl c. ApplyInventory js (m\<lparr>Manager := cl\<rparr>) c now i =
                (case Patch cl c cm Apply [ForceOwnership, FieldOwner (Field (Owner m))] of
                   (r, c') \<Rightarrow> (map_option ClientError r, c')))
         \<and> DAList.lookup (Annotations (ObjectMeta cm)) (Group (Owner m) @ ''/source'')
             = (if Source i = [] then None else Some (Source i))
         \<and> DAList.lookup (Annotations (ObjectMeta cm)) (Group (Owner m) @ ''/revision'')
             = (if Revision i = [] then None else Some (Revision i))
         \<and> DAList.lookup (Annotations (ObjectMeta cm)) (Group (Owner m) @ ''/last-applied-time'')
             = Some (FormatRFC3339 now)
         \<and> DAList.lookup (Annotations (ObjectMeta cm)) (Group (Owner m) @ ''/source'') \<noteq> Some []
         \<and> DAList.lookup (Annotations (ObjectMeta cm)) (Group (Owner m) @ ''/revision'')
             \<noteq> Some []))
   \<and> (\<forall>c'. ApplyInventory js m c now i = (None, c')
        \<longrightarrow> (\<exists>data. Marshal js (Entries i) = Inr data))"
proof -
  have a: "\<forall>data. Marshal js (Entries i) = Inr data \<longrightarrow>
      (\<exists>cm. (\<forall>cl c. ApplyInventory js (m\<lparr>Manager := cl\<rparr>) c now i =
                (case Patch cl c cm Apply [ForceOwnership, FieldOwner (Field (Owner m))] of
                   (r, c') \<Rightarrow> (map_option ClientError r, c')))
         \<and> DAList.lookup (Annotations (ObjectMeta cm)) (Group (Owner m) @ ''/source'')
             = (if Source i = [] then None else Some (Source i))
         \<and> DAList.lookup (Annotations (ObjectMeta cm)) (Group (Owner m) @ ''/revision'')
             = (if Revision i = [] then None else Some (Revision i))
         \<and> DAList.lookup (Annotations (ObjectMeta cm)) (Group (Owner m) @ ''/last-applied-time'')
             = Some (FormatRFC3339 now)
         \<and> DAList.lookup (Annotations (ObjectMeta cm)) (Group (Owner m) @ ''/source'') \<noteq> Some []
         \<and> DAList.lookup (Annotations (ObjectMeta cm)) (Group (Owner m) @ ''/revision'')
             \<noteq> Some [])"
  proof (intro allI impI)
    fix data
    assume mar: "Marshal js (Entries i) = Inr data"
    from ApplyInventory_object [OF mar, of m now] obtain cm where
      ann: "\<forall>k. DAList.lookup (Annotations (ObjectMeta cm)) k =
           (if k = Group (Owner m) @ ''/last-applied-time'' then Some (FormatRFC3339 now)
            else if k = Group (Owner m) @ ''/source'' \<and> Source i \<noteq> [] then Some (Source i)
            else if k = Group (Owner m) @ ''/revision'' \<and> Revision i \<noteq> []
              then Some (Revision i)
            else None)"
      and pat: "\<forall>cl c. ApplyInventory js (m\<lparr>Manager := cl\<rparr>) c now i =
           (case Patch cl c cm Apply [ForceOwnership, FieldOwner (Field (Owner m))] of
              (r, c') \<Rightarrow> (map_option ClientError r, c'))"
      by blast
    have s: "DAList.lookup (Annotations (ObjectMeta cm)) (Group (Owner m) @ ''/source'')
             = (if Source i = [] then None else Some (Source i))"
      using ann by simp
    have r: "DAList.lookup (Annotations (ObjectMeta cm)) (Group (Owner m) @ ''/revision'')
             = (if Revision i = [] then None else Some (Revision i))"
      using ann by simp
    have t: "DAList.lookup (Annotations (ObjectMeta cm)) (Group (Owner m) @ ''/last-applied-time'')
             = Some (FormatRFC3339 now)"
      using ann by simp
    have s0: "DAList.lookup (Annotations (ObjectMeta cm)) (Group (Owner m) @ ''/source'') \<noteq> Some []"
      using s by simp
    have r0: "DAList.lookup (Annotations (ObjectMeta cm)) (Group (Owner m) @ ''/revision'')
             \<noteq> Some []"
      using r by simp
    from pat s r t s0 r0
    show "\<exists>cm. (\<forall>cl c. ApplyInventory js (m\<lparr>Manager := cl\<rparr>) c now i =
                (case Patch cl c cm Apply [ForceOwnership, FieldOwner (Field (Owner m))] of
                   (r, c') \<Rightarrow> (map_option ClientError r, c')))
         \<and> DAList.lookup (Annotations (ObjectMeta cm)) (Group (Owner m) @ ''/source'')
             = (if Source i = [] then None else Some (Source i))
         \<and> DAList.lookup (Annotations (ObjectMeta cm)) (Group (Owner m) @ ''/revision'')
             = (if Revision i = [] then None else Some (Revision i))
         \<and> DAList.lookup (Annotations (ObjectMeta cm)) (Group (Owner m) @ ''/last-applied-time'')
             = Some (FormatRFC3339 now)
         \<and> DAList.lookup (Annotations (ObjectMeta cm)) (Group (Owner m) @ ''/source'') \<noteq> Some []
         \<and> DAList.lookup (Annotations (ObjectMeta cm)) (Group (Owner m) @ ''/revision'')
             \<noteq> Some []"
      by blast
  qed
  have b: "\<forall>c'. ApplyInventory js m c now i = (None, c')
        \<longrightarrow> (\<exists>data. Marshal js (Entries i) = Inr data)"
    by (cases "Marshal js (Entries i)") (auto simp: ApplyInventory_def)
  from a b show ?thesis by blast
qed

theorem ApplyInventory_annotations_witness:
  "\<exists>cm. snd (ApplyInventory exJSON exStorage Map.empty exTime (exAnonymous\<lparr>Revision := ''v7''\<rparr>))
           (ObjectKey ''ns'' ''app'') = Some cm
     \<and> DAList.lookup (Annotations (ObjectMeta cm)) ''inventory.kustomizer.dev/source'' = None
     \<and> DAList.lookup (Annotations (ObjectMeta cm)) ''inventory.kustomizer.dev/revision''
         = Some ''v7''
     \<and> DAList.lookup (Annotations (ObjectMeta cm)) ''inventory.kustomizer.dev/last-applied-time''
         = Some ''2021-03-04T05:06:07Z''"
proof -
  let ?i = "exAnonymous\<lparr>Revision := ''v7''\<rparr>"
  let ?g = "Group (Owner exStorage)"
  have mar: "Marshal exJSON (Entries ?i) = Inr exBlob"
    by (simp add: exJSON_def exAnonymous_def exEntries_def exBlob_def)
  from ApplyInventory_annotations [of exJSON ?i exStorage exTime Map.empty] mar
  obtain cm where
    pat: "\<forall>cl c. ApplyInventory exJSON (exStorage\<lparr>Manager := cl\<rparr>) c exTime ?i =
                (case Patch cl c cm Apply [ForceOwnership, FieldOwner (Field (Owner exStorage))] of
                   (r, c') \<Rightarrow> (map_option ClientError r, c'))"
    and s: "DAList.lookup (Annotations (ObjectMeta cm)) (?g @ ''/source'')
             = (if Source ?i = [] then None else Some (Source ?i))"
    and r: "DAList.lookup (Annotations (ObjectMeta cm)) (?g @ ''/revision'')
             = (if Revision ?i = [] then None else Some (Revision ?i))"
    and t: "DAList.lookup (Annotations (ObjectMeta cm)) (?g @ ''/last-applied-time'')
             = Some (FormatRFC3339 exTime)"
    by blast
  have same: "exStorage\<lparr>Manager := memClient\<rparr> = exStorage"
    by (simp add: exStorage_def)
  from pat have "ApplyInventory exJSON (exStorage\<lparr>Manager := memClient\<rparr>) Map.empty exTime ?i =
      (case Patch memClient Map.empty cm Apply [ForceOwnership, FieldOwner (Field (Owner exStorage))] of
         (r, c') \<Rightarrow> (map_option ClientError r, c'))"
    by blast
  then have "ApplyInventory exJSON exStorage Map.empty exTime ?i =
      (case Patch memClient Map.empty cm Apply [ForceOwnership, FieldOwner (Field (Owner exStorage))] of
         (r, c') \<Rightarrow> (map_option ClientError r, c'))"
    by (simp only: same)
  then have ap: "snd (ApplyInventory exJSON exStorage Map.empty exTime ?i)
                   = Map.empty(ObjectKeyFromObject cm \<mapsto>
                       serverSideApply (Field (Owner exStorage)) None cm)"
    by (simp add: memClient_Patch)
  have "snd (ApplyInventory exJSON exStorage Map.empty exTime ?i) (ObjectKey ''ns'' ''app'')
          = Some (the (snd (ApplyInventory exJSON exStorage Map.empty exTime ?i)
                         (ObjectKey ''ns'' ''app'')))"
    by (simp add: ApplyInventory_def Let_def exJSON_def exStorage_def memClient_def
        exAnonymous_def newConfigMap_def ObjectKeyFromObject_def)
  with ap have k: "snd (ApplyInventory exJSON exStorage Map.empty exTime ?i)
                     (ObjectKey ''ns'' ''app'')
                   = Some (serverSideApply (Field (Owner exStorage)) None cm)"
    by (simp split: if_splits)
  have g: "?g = ''inventory.kustomizer.dev''"
    by (simp add: exStorage_def)
  from k s r t show ?thesis
    by (simp add: g FormatRFC3339_exTime exAnonymous_def serverSideApply_Annotations)
qed

subsection \<open>One constructor, one record key\<close>

lemma GetInventory_Manager:
  "GetInventory js (m\<lparr>Manager := cl\<rparr>) c i =
     (case Get cl c (ObjectKey (Namespace i) (Name i))
             (newConfigMap m (Name i) (Namespace i)) of
        Inl err \<Rightarrow> (Some (ClientError err), i)
      | Inr cm \<Rightarrow>
         (case DAList.lookup (Data cm) ''inventory'' of
            None \<Rightarrow>
              (Some (Errorf (''inventory data not found in ConfigMap/'' @ Namespace i @ ''/''
                             @ Name i) None), i)
          | Some blob \<Rightarrow>
             (case Unmarshal js blob of
                Inl msg \<Rightarrow> (Some (JSONError msg), i)
              | Inr entries \<Rightarrow>
                 (None,
                  rangeAnnotations (Group (Owner m))
                    (DAList.impl_of (Annotations (ObjectMeta cm)))
                    (i\<lparr>Entries := entries\<rparr>)))))"
  by (simp add: GetInventory_eq newConfigMap_Manager
      cong: sum.case_cong option.case_cong)

lemma GetInventoryStaleObjects_Manager:
  "GetInventoryStaleObjects diff js (m\<lparr>Manager := cl\<rparr>) c i =
     (case Get cl c (ObjectKey (Namespace i) (Name i))
             (newConfigMap m (Name i) (Namespace i)) of
        Inl err \<Rightarrow> if IsNotFoundClient err then Inr [] else Inl (ClientError err)
      | Inr cm \<Rightarrow>
         (case DAList.lookup (Data cm) ''inventory'' of
            None \<Rightarrow>
              Inl (Errorf (''inventory data not found in ConfigMap/'' @ Namespace i @ ''/''
                           @ Name i) None)
          | Some blob \<Rightarrow>
             (case Unmarshal js blob of
                Inl msg \<Rightarrow> Inl (JSONError msg)
              | Inr entries \<Rightarrow>
                 diff (rangeAnnotations (Group (Owner m))
                         (DAList.impl_of (Annotations (ObjectMeta cm)))
                         ((NewInventory (Name i) (Namespace i))\<lparr>Entries := entries\<rparr>))
                      i)))"
proof -
  let ?J = "NewInventory (Name i) (Namespace i)"
  have J: "Name ?J = Name i" "Namespace ?J = Namespace i"
    by (simp_all add: NewInventory_def)
  show ?thesis
    unfolding GetInventoryStaleObjects_def Let_def GetInventory_Manager J
    by (simp split: sum.splits option.splits)
qed

lemma DeleteInventory_Manager:
  "DeleteInventory (m\<lparr>Manager := cl\<rparr>) c i =
     (case Delete cl c (newConfigMap m (Name i) (Namespace i)) of
        (None, c') \<Rightarrow> (None, c')
      | (Some e, c') \<Rightarrow>
          if IsNotFoundClient e then (None, c')
          else (Some (Errorf (''failed to delete ConfigMap/'' @ Namespace i @ ''/'' @ Name i
                              @ '', error: '' @ ErrorString e) (Some e)), c'))"
  by (simp add: DeleteInventory_eq newConfigMap_Manager)

text \<open>
  C10. newConfigMap builds a v1 ConfigMap with the name and the namespace it is given,
  and exactly three labels: app.kubernetes.io/name is the name,
  app.kubernetes.io/component is "inventory", app.kubernetes.io/created-by is the owner's
  field. Each of the four operations, with every client, is one call of the client on
  that object for the inventory's name and namespace: ApplyInventory is the Patch of an
  object with its type, key and labels; GetInventory is the Get of the key
  namespace/name into that object, and reads what the Get returns; DeleteInventory is the
  Delete of that object; GetInventoryStaleObjects is the same Get, for the same key. So
  the four operations, given inventories of one name and namespace, address the record
  under the key namespace/name.
\<close>

theorem newConfigMap_addresses_record:
  "ObjectKeyFromObject (newConfigMap m name namespace) = ObjectKey namespace name
   \<and> TypeMeta (newConfigMap m name namespace) = \<lparr>APIVersion = ''v1'', Kind = ''ConfigMap''\<rparr>
   \<and> (\<forall>k. DAList.lookup (Labels (ObjectMeta (newConfigMap m name namespace))) k =
         (if k = ''app.kubernetes.io/name'' then Some name
          else if k = ''app.kubernetes.io/component'' then Some ''inventory''
          else if k = ''app.kubernetes.io/created-by'' then Some (Field (Owner m))
          else None))
   \<and> (\<forall>data. Marshal js (Entries i) = Inr data \<longrightarrow>
        (\<exists>cm. ObjectKeyFromObject cm = ObjectKey (Namespace i) (Name i)
           \<and> TypeMeta cm = TypeMeta (newConfigMap m (Name i) (Namespace i))
           \<and> Labels (ObjectMeta cm) = Labels (ObjectMeta (newConfigMap m (Name i) (Namespace i)))
           \<and> (\<forall>cl c. ApplyInventory js (m\<lparr>Manager := cl\<rparr>) c now i =
                (case Patch cl c cm Apply [ForceOwnership, FieldOwner (Field (Owner m))] of
                   (r, c') \<Rightarrow> (map_option ClientError r, c')))))
   \<and> (\<forall>cl c. GetInventory js (m\<lparr>Manager := cl\<rparr>) c i =
        (case Get cl c (ObjectKey (Namespace i) (Name i))
                (newConfigMap m (Name i) (Namespace i)) of
           Inl err \<Rightarrow> (Some (ClientError err), i)
         | Inr cm \<Rightarrow>
            (case DAList.lookup (Data cm) ''inventory'' of
               None \<Rightarrow>
                 (Some (Errorf (''inventory data not found in ConfigMap/'' @ Namespace i
                                @ ''/'' @ Name i) None), i)
             | Some blob \<Rightarrow>
                (case Unmarshal js blob of
                   Inl msg \<Rightarrow> (Some (JSONError msg), i)
                 | Inr entries \<Rightarrow>
                    (None,
                     rangeAnnotations (Group (Owner m))
                       (DAList.impl_of (Annotations (ObjectMeta cm)))
                       (i\<lparr>Entries := entries\<rparr>))))))
   \<and> (\<forall>cl c. GetInventoryStaleObjects diff js (m\<lparr>Manager := cl\<rparr>) c i =
        (case Get cl c (ObjectKey (Namespace i) (Name i))
                (newConfigMap m (Name i) (Namespace i)) of
           Inl err \<Rightarrow> if IsNotFoundClient err then Inr [] else Inl (ClientError err)
         | Inr cm \<Rightarrow>
            (case DAList.lookup (Data cm) ''inventory'' of
               None \<Rightarrow>
                 Inl (Errorf (''inventory data not found in ConfigMap/'' @ Namespace i
                              @ ''/'' @ Name i) None)
             | Some blob \<Rightarrow>
                (case Unmarshal js blob of
                   Inl msg \<Rightarrow> Inl (JSONError msg)
                 | Inr entries \<Rightarrow>
                    diff (rangeAnnotations (Group (Owner m))
                            (DAList.impl_of (Annotations (ObjectMeta cm)))
                            ((NewInventory (Name i) (Namespace i))\<lparr>Entries := entries\<rparr>))
                         i))))
   \<and> (\<forall>cl c. DeleteInventory (m\<lparr>Manager := cl\<rparr>) c i =
        (case Delete cl c (newConfigMap m (Name i) (Namespace i)) of
           (None, c') \<Rightarrow> (None, c')
         | (Some e, c') \<Rightarrow>
             if IsNotFoundClient e then (None, c')
             else (Some (Errorf (''failed to delete ConfigMap/'' @ Namespace i @ ''/''
                                 @ Name i @ '', error: '' @ ErrorString e) (Some e)), c')))"
proof -
  have a: "ObjectKeyFromObject (newConfigMap m name namespace) = ObjectKey namespace name"
    by (rule newConfigMap_key)
  have b: "TypeMeta (newConfigMap m name namespace) = \<lparr>APIVersion = ''v1'', Kind = ''ConfigMap''\<rparr>"
    by (simp add: newConfigMap_def)
  have c: "\<forall>k. DAList.lookup (Labels (ObjectMeta (newConfigMap m name namespace))) k =
         (if k = ''app.kubernetes.io/name'' then Some name
          else if k = ''app.kubernetes.io/component'' then Some ''inventory''
          else if k = ''app.kubernetes.io/created-by'' then Some (Field (Owner m))
          else None)"
    by (simp add: newConfigMap_def DAList.lookup_update inventoryKindName_def)
  have d: "\<forall>data. Marshal js (Entries i) = Inr data \<longrightarrow>
        (\<exists>cm. ObjectKeyFromObject cm = ObjectKey (Namespace i) (Name i)
           \<and> TypeMeta cm = TypeMeta (newConfigMap m (Name i) (Namespace i))
           \<and> Labels (ObjectMeta cm) = Labels (ObjectMeta (newConfigMap m (Name i) (Namespace i)))
           \<and> (\<forall>cl c. ApplyInventory js (m\<lparr>Manager := cl\<rparr>) c now i =
                (case Patch cl c cm Apply [ForceOwnership, FieldOwner (Field (Owner m))] of
                   (r, c') \<Rightarrow> (map_option ClientError r, c'))))"
  proof (intro allI impI)
    fix data
    assume mar: "Marshal js (Entries i) = Inr data"
    have b': "TypeMeta (newConfigMap m (Name i) (Namespace i))
                = \<lparr>APIVersion = ''v1'', Kind = ''ConfigMap''\<rparr>"
      by (simp add: newConfigMap_def)
    from ApplyInventory_object [OF mar, of m now] obtain cm where
      t: "TypeMeta cm = \<lparr>APIVersion = ''v1'', Kind = ''ConfigMap''\<rparr>" and
      k: "ObjectKeyFromObject cm = ObjectKey (Namespace i) (Name i)" and
      l: "Labels (ObjectMeta cm) = Labels (ObjectMeta (newConfigMap m (Name i) (Namespace i)))" and
      p: "\<forall>cl c. ApplyInventory js (m\<lparr>Manager := cl\<rparr>) c now i =
           (case Patch cl c cm Apply [ForceOwnership, FieldOwner (Field (Owner m))] of
              (r, c') \<Rightarrow> (map_option ClientError r, c'))"
      by blast
    from t b' have t': "TypeMeta cm = TypeMeta (newConfigMap m (Name i) (Namespace i))"
      by simp
    from k t' l p
    show "\<exists>cm. ObjectKeyFromObject cm = ObjectKey (Namespace i) (Name i)
           \<and> TypeMeta cm = TypeMeta (newConfigMap m (Name i) (Namespace i))
           \<and> Labels (ObjectMeta cm) = Labels (ObjectMeta (newConfigMap m (Name i) (Namespace i)))
           \<and> (\<forall>cl c. ApplyInventory js (m\<lparr>Manager := cl\<rparr>) c now i =
                (case Patch cl c cm Apply [ForceOwnership, FieldOwner (Field (Owner m))] of
                   (r, c') \<Rightarrow> (map_option ClientError r, c')))"
      by blast
  qed
  show ?thesis
  proof (intro conjI)
    show "ObjectKeyFromObject (newConfigMap m name namespace) = ObjectKey namespace name"
      by (rule a)
  qed (rule b, rule c, rule d,
       (intro allI, rule GetInventory_Manager),
       (intro allI, rule GetInventoryStaleObjects_Manager),
       (intro allI, rule DeleteInventory_Manager))
qed

theorem newConfigMap_addresses_record_witness:
  "DAList.lookup (Labels (ObjectMeta (newConfigMap exStorage ''app'' ''ns'')))
       ''app.kubernetes.io/created-by'' = Some ''kustomizer''
   \<and> DAList.lookup (Labels (ObjectMeta (newConfigMap exStorage ''app'' ''ns'')))
       ''app.kubernetes.io/component'' = Some ''inventory''
   \<and> DAList.lookup (Labels (ObjectMeta (newConfigMap exStorage ''app'' ''ns'')))
       ''app.kubernetes.io/name'' = Some ''app''
   \<and> fst (GetInventory exJSON exStorage
        ((exCluster exStored)(ObjectKey ''ns'' ''other'' \<mapsto> exBroken)) exDesired) = None
   \<and> Entries (snd (GetInventory exJSON exStorage
        ((exCluster exStored)(ObjectKey ''ns'' ''other'' \<mapsto> exBroken)) exDesired)) = exEntries
   \<and> GetInventoryStaleObjects exDiff exJSON exStorage
        ((exCluster exStored)(ObjectKey ''ns'' ''other'' \<mapsto> exBroken)) exDesired
       = Inr [\<lparr> ID = ''a'', Version = ''v1'' \<rparr>]
   \<and> DeleteInventory exStorage
        ((exCluster exStored)(ObjectKey ''ns'' ''other'' \<mapsto> exBroken)) exDesired
       = (None, [ObjectKey ''ns'' ''other'' \<mapsto> exBroken])
   \<and> snd (ApplyInventory exJSON exStorage [ObjectKey ''ns'' ''other'' \<mapsto> exBroken] exTime
            exDesired) (ObjectKey ''ns'' ''other'') = Some exBroken
   \<and> snd (ApplyInventory exJSON exStorage [ObjectKey ''ns'' ''other'' \<mapsto> exBroken] exTime
            exDesired) (ObjectKey ''ns'' ''app'') \<noteq> None"
proof -
  note t = newConfigMap_addresses_record [of exStorage "Name exDesired" "Namespace exDesired"
      exJSON exDesired exTime exDiff]
  let ?more = "(exCluster exStored)(ObjectKey ''ns'' ''other'' \<mapsto> exBroken)"
  let ?obj = "newConfigMap exStorage (Name exDesired) (Namespace exDesired)"
  let ?K = "ObjectKey (Namespace exDesired) (Name exDesired)"
  have n: "Name exDesired = ''app''" "Namespace exDesired = ''ns''"
    by (simp_all add: exDesired_def)
  have same: "exStorage\<lparr>Manager := memClient\<rparr> = exStorage"
    by (simp add: exStorage_def)
  from t have "\<forall>k. DAList.lookup (Labels (ObjectMeta (newConfigMap exStorage ''app'' ''ns''))) k =
         (if k = ''app.kubernetes.io/name'' then Some ''app''
          else if k = ''app.kubernetes.io/component'' then Some ''inventory''
          else if k = ''app.kubernetes.io/created-by'' then Some (Field (Owner exStorage))
          else None)"
    by (simp only: n) blast
  then have labels:
    "DAList.lookup (Labels (ObjectMeta (newConfigMap exStorage ''app'' ''ns'')))
       ''app.kubernetes.io/created-by'' = Some ''kustomizer''
     \<and> DAList.lookup (Labels (ObjectMeta (newConfigMap exStorage ''app'' ''ns'')))
       ''app.kubernetes.io/component'' = Some ''inventory''
     \<and> DAList.lookup (Labels (ObjectMeta (newConfigMap exStorage ''app'' ''ns'')))
       ''app.kubernetes.io/name'' = Some ''app''"
    by (simp add: exStorage_def)
  have get: "Get memClient ?more ?K ?obj = Inr exStored"
    by (simp add: memClient_Get exCluster_def n)
  have blob: "DAList.lookup (Data exStored) ''inventory'' = Some exBlob"
    by (simp add: exStored_def)
  have dec: "Unmarshal exJSON exBlob = Inr exEntries"
    by (simp add: exJSON_def)
  from t have "GetInventory exJSON (exStorage\<lparr>Manager := memClient\<rparr>) ?more exDesired =
        (case Get memClient ?more ?K ?obj of
           Inl err \<Rightarrow> (Some (ClientError err), exDesired)
         | Inr cm \<Rightarrow>
            (case DAList.lookup (Data cm) ''inventory'' of
               None \<Rightarrow>
                 (Some (Errorf (''inventory data not found in ConfigMap/'' @ Namespace exDesired
                                @ ''/'' @ Name exDesired) None), exDesired)
             | Some blob \<Rightarrow>
                (case Unmarshal exJSON blob of
                   Inl msg \<Rightarrow> (Some (JSONError msg), exDesired)
                 | Inr entries \<Rightarrow>
                    (None,
                     rangeAnnotations (Group (Owner exStorage))
                       (DAList.impl_of (Annotations (ObjectMeta cm)))
                       (exDesired\<lparr>Entries := entries\<rparr>)))))"
    by blast
  then have "GetInventory exJSON exStorage ?more exDesired =
        (None, rangeAnnotations (Group (Owner exStorage))
                 (DAList.impl_of (Annotations (ObjectMeta exStored)))
                 (exDesired\<lparr>Entries := exEntries\<rparr>))"
    by (simp only: same get blob dec sum.case option.case)
  then have getinv: "fst (GetInventory exJSON exStorage ?more exDesired) = None
     \<and> Entries (snd (GetInventory exJSON exStorage ?more exDesired)) = exEntries"
    by (simp add: rangeAnnotations_frame)
  from t have "GetInventoryStaleObjects exDiff exJSON (exStorage\<lparr>Manager := memClient\<rparr>) ?more
        exDesired =
        (case Get memClient ?more ?K ?obj of
           Inl err \<Rightarrow> if IsNotFoundClient err then Inr [] else Inl (ClientError err)
         | Inr cm \<Rightarrow>
            (case DAList.lookup (Data cm) ''inventory'' of
               None \<Rightarrow>
                 Inl (Errorf (''inventory data not found in ConfigMap/'' @ Namespace exDesired
                              @ ''/'' @ Name exDesired) None)
             | Some blob \<Rightarrow>
                (case Unmarshal exJSON blob of
                   Inl msg \<Rightarrow> Inl (JSONError msg)
                 | Inr entries \<Rightarrow>
                    exDiff (rangeAnnotations (Group (Owner exStorage))
                            (DAList.impl_of (Annotations (ObjectMeta cm)))
                            ((NewInventory (Name exDesired) (Namespace exDesired))
                               \<lparr>Entries := entries\<rparr>))
                         exDesired)))"
    by blast
  then have "GetInventoryStaleObjects exDiff exJSON exStorage ?more exDesired =
        exDiff (rangeAnnotations (Group (Owner exStorage))
                  (DAList.impl_of (Annotations (ObjectMeta exStored)))
                  ((NewInventory (Name exDesired) (Namespace exDesired))\<lparr>Entries := exEntries\<rparr>))
               exDesired"
    by (simp only: same get blob dec sum.case option.case)
  then have stale: "GetInventoryStaleObjects exDiff exJSON exStorage ?more exDesired
       = Inr [\<lparr> ID = ''a'', Version = ''v1'' \<rparr>]"
    by (simp add: exDiff_def rangeAnnotations_frame exEntries_def exDesired_def)
  from t have "DeleteInventory (exStorage\<lparr>Manager := memClient\<rparr>) ?more exDesired =
        (case Delete memClient ?more ?obj of
           (None, c') \<Rightarrow> (None, c')
         | (Some e, c') \<Rightarrow>
             if IsNotFoundClient e then (None, c')
             else (Some (Errorf (''failed to delete ConfigMap/'' @ Namespace exDesired @ ''/''
                                 @ Name exDesired @ '', error: '' @ ErrorString e) (Some e)), c'))"
    by blast
  then have "DeleteInventory exStorage ?more exDesired =
        (case Delete memClient ?more ?obj of
           (None, c') \<Rightarrow> (None, c')
         | (Some e, c') \<Rightarrow>
             if IsNotFoundClient e then (None, c')
             else (Some (Errorf (''failed to delete ConfigMap/'' @ Namespace exDesired @ ''/''
                                 @ Name exDesired @ '', error: '' @ ErrorString e) (Some e)), c'))"
    by (simp only: same)
  moreover have "Delete memClient ?more ?obj = (None, [ObjectKey ''ns'' ''other'' \<mapsto> exBroken])"
    by (auto simp: memClient_def newConfigMap_key n exCluster_def)
  ultimately have del: "DeleteInventory exStorage ?more exDesired
       = (None, [ObjectKey ''ns'' ''other'' \<mapsto> exBroken])"
    by simp
  have mar: "Marshal exJSON (Entries exDesired) = Inr ''b=v1;c=v1;d=v1;''"
    by (simp add: exJSON_def exDesired_def)
  from t mar obtain cm where
    key: "ObjectKeyFromObject cm = ?K"
    and pat: "\<forall>cl c. ApplyInventory exJSON (exStorage\<lparr>Manager := cl\<rparr>) c exTime exDesired =
                (case Patch cl c cm Apply [ForceOwnership, FieldOwner (Field (Owner exStorage))] of
                   (r, c') \<Rightarrow> (map_option ClientError r, c'))"
    by blast
  let ?c = "[ObjectKey ''ns'' ''other'' \<mapsto> exBroken]"
  from pat have "ApplyInventory exJSON (exStorage\<lparr>Manager := memClient\<rparr>) ?c exTime exDesired =
      (case Patch memClient ?c cm Apply [ForceOwnership, FieldOwner (Field (Owner exStorage))] of
         (r, c') \<Rightarrow> (map_option ClientError r, c'))"
    by blast
  then have "ApplyInventory exJSON exStorage ?c exTime exDesired =
      (case Patch memClient ?c cm Apply [ForceOwnership, FieldOwner (Field (Owner exStorage))] of
         (r, c') \<Rightarrow> (map_option ClientError r, c'))"
    by (simp only: same)
  then have "snd (ApplyInventory exJSON exStorage ?c exTime exDesired)
               = ?c(ObjectKey ''ns'' ''app'' \<mapsto>
                     serverSideApply (Field (Owner exStorage)) (?c (ObjectKey ''ns'' ''app'')) cm)"
    by (simp add: memClient_Patch key n)
  then have app: "snd (ApplyInventory exJSON exStorage ?c exTime exDesired)
                    (ObjectKey ''ns'' ''other'') = Some exBroken
     \<and> snd (ApplyInventory exJSON exStorage ?c exTime exDesired) (ObjectKey ''ns'' ''app'') \<noteq> None"
    by simp
  from labels getinv stale del app show ?thesis
    by simp
qed

subsection \<open>Diff\<close>



end
